theory Spec2Isabelle
  imports Main "HOL-Library.Word"
begin

section \<open>The wlmaker toolkit: elements and surfaces\<close>

text \<open>
  A shallow embedding of \<^verbatim>\<open>src/toolkit/surface.c\<close> and of the inline
  functions of \<^verbatim>\<open>src/toolkit/element.h\<close>. Every C function becomes a HOL
  function of the same name (a leading underscore is dropped: HOL names start with a
  letter). Memory that a C function changes through a pointer is an argument and a
  component of the result. A pointer that may be \<^verbatim>\<open>NULL\<close> is an
  \<open>option\<close>. A failing \<^verbatim>\<open>BS_ASSERT\<close> and a call through a
  \<^verbatim>\<open>NULL\<close> pointer end the process: such a function returns
  \<open>error + 'a\<close>, with \<open>Inl\<close> for the error.
\<close>

subsection \<open>Integers, handles and host objects\<close>

text \<open>
  C's \<^verbatim>\<open>int\<close> is a 32-bit two's-complement word (\<open>sint\<close> reads it),
  \<^verbatim>\<open>uint32_t\<close> a 32-bit word. The one subtraction of two
  \<^verbatim>\<open>int\<close>s in the code wraps around here, where C leaves the overflow
  undefined. A \<^verbatim>\<open>double\<close> is a value
  of a type parameter \<open>'d\<close>: the code only stores and forwards coordinates, and adds
  an \<^verbatim>\<open>int\<close> to one in a single place, where the host record supplies
  the addition. The all-zero bit pattern that \<^verbatim>\<open>memset\<close> writes is
  \<open>0\<close> of that type.
\<close>

type_synonym c_int = "32 word"
type_synonym uint32_t = "32 word"

text \<open>Objects owned by wlroots are known by their address only.\<close>

type_synonym wlr_surface = nat
type_synonym wlr_scene_node = nat
type_synonym wlr_scene_tree = nat
type_synonym wlmtk_container = nat
type_synonym wlmtk_env = nat

datatype error = BS_ASSERT_failed | NULL_dereferenced | Unbounded_recursion

text \<open>
  \<^verbatim>\<open>struct wlr_box\<close>. The fields \<^verbatim>\<open>x, y, width, height\<close> carry
  a prefix here, since a record field is a constant of the whole theory.
\<close>

record wlr_box =
  box_x :: c_int
  box_y :: c_int
  box_width :: c_int
  box_height :: c_int

text \<open>
  An output parameter \<^verbatim>\<open>int *p\<close> that "may be NULL": \<open>None\<close> is the
  \<^verbatim>\<open>NULL\<close> pointer, \<open>Some v\<close> a pointer to an \<^verbatim>\<open>int\<close>
  holding \<open>v\<close>. \<open>out_write p v\<close> is
  \<^verbatim>\<open>if (NULL != p) *p = v;\<close> and yields what \<open>p\<close> points to afterwards.
\<close>

definition out_write :: "c_int option \<Rightarrow> c_int \<Rightarrow> c_int option" where
  "out_write p v = (case p of None \<Rightarrow> None | Some _ \<Rightarrow> Some v)"

subsection \<open>Signals and listeners\<close>

text \<open>
  A \<^verbatim>\<open>wl_signal\<close> is an intrusive list of listeners: a listener's link is
  threaded into at most one list. The host side of all lists is therefore a partial map
  from listeners to the signal they are linked into. The listeners of interest are the
  two embedded in a surface: its \<^verbatim>\<open>surface_commit_listener\<close> and its
  element's \<^verbatim>\<open>wlr_scene_node_destroy_listener\<close>; every other listener of
  the process is a \<open>Foreign_listener\<close>.
\<close>

datatype wl_signal =
  Surface_events_commit wlr_surface
  | Scene_node_events_destroy wlr_scene_node

datatype wl_listener_id =
  Surface_commit_listener
  | Wlr_scene_node_destroy_listener
  | Foreign_listener nat

type_synonym wl_subscriptions = "wl_listener_id \<Rightarrow> wl_signal option"

text \<open>The handler a listener's \<^verbatim>\<open>notify\<close> field points to.\<close>

datatype wl_notify_func = Handle_surface_commit | Handle_wlr_scene_node_destroy

text \<open>
  \<^verbatim>\<open>struct wl_listener\<close>, the part in the surface's own memory: the
  \<^verbatim>\<open>notify\<close> pointer (\<open>None\<close> after \<^verbatim>\<open>memset\<close>).
\<close>

record wl_listener =
  notify :: "wl_notify_func option"

definition wl_signal_add :: "wl_subscriptions \<Rightarrow> wl_signal \<Rightarrow> wl_listener_id \<Rightarrow> wl_subscriptions" where
  "wl_signal_add subs sig l = subs(l \<mapsto> sig)"

definition wl_list_remove :: "wl_subscriptions \<Rightarrow> wl_listener_id \<Rightarrow> wl_subscriptions" where
  "wl_list_remove subs l = subs(l := None)"

text \<open>
  Modelled from the spec: \<^verbatim>\<open>util.h\<close> is not among the sources.
  \<^verbatim>\<open>wlmtk_util_connect_listener_signal\<close> is the "commit-notification
  subscription mechanism" of section 6: it installs the handler and links the listener
  into the signal.
\<close>

definition wlmtk_util_connect_listener_signal ::
  "wl_subscriptions \<Rightarrow> wl_signal \<Rightarrow> wl_listener_id \<Rightarrow> wl_notify_func \<Rightarrow> wl_subscriptions \<times> wl_listener" where
  "wlmtk_util_connect_listener_signal subs sig l handler =
     (wl_signal_add subs sig l, \<lparr>notify = Some handler\<rparr>)"

subsection \<open>The seat: pointer focus of the host\<close>

text \<open>
  The seat belongs to wlroots. Its state is the surface that holds pointer focus
  (\<^verbatim>\<open>pointer_state.focused_surface\<close>) and the requests it has received, in
  order. \<^verbatim>\<open>wlmtk_env_wlr_seat\<close> (\<^verbatim>\<open>env.h\<close>, not among the
  sources) is the accessor of the seat of an element's environment: the functions below
  take that seat as an argument and return it.
\<close>

datatype wlr_button_state = WLR_BUTTON_RELEASED | WLR_BUTTON_PRESSED

datatype 'd seat_request =
  Pointer_notify_enter wlr_surface 'd 'd
  | Pointer_notify_motion uint32_t 'd 'd
  | Pointer_notify_button uint32_t uint32_t wlr_button_state
  | Pointer_clear_focus

record 'd wlr_seat =
  focused_surface :: "wlr_surface option"
  requests :: "'d seat_request list"

text \<open>
  The four seat requests of section 6 of the spec. Entering a surface gives it pointer
  focus and clearing the focus removes it, as the seat's default pointer grab does;
  motion and button requests are forwarded to the focused client.
\<close>

definition wlr_seat_pointer_notify_enter :: "'d wlr_seat \<Rightarrow> wlr_surface \<Rightarrow> 'd \<Rightarrow> 'd \<Rightarrow> 'd wlr_seat" where
  "wlr_seat_pointer_notify_enter seat sub sx sy =
     seat\<lparr>focused_surface := Some sub, requests := requests seat @ [Pointer_notify_enter sub sx sy]\<rparr>"

definition wlr_seat_pointer_notify_motion :: "'d wlr_seat \<Rightarrow> uint32_t \<Rightarrow> 'd \<Rightarrow> 'd \<Rightarrow> 'd wlr_seat" where
  "wlr_seat_pointer_notify_motion seat t sx sy =
     seat\<lparr>requests := requests seat @ [Pointer_notify_motion t sx sy]\<rparr>"

definition wlr_seat_pointer_notify_button ::
  "'d wlr_seat \<Rightarrow> uint32_t \<Rightarrow> uint32_t \<Rightarrow> wlr_button_state \<Rightarrow> 'd wlr_seat" where
  "wlr_seat_pointer_notify_button seat t b st =
     seat\<lparr>requests := requests seat @ [Pointer_notify_button t b st]\<rparr>"

definition wlr_seat_pointer_clear_focus :: "'d wlr_seat \<Rightarrow> 'd wlr_seat" where
  "wlr_seat_pointer_clear_focus seat =
     seat\<lparr>focused_surface := None, requests := requests seat @ [Pointer_clear_focus]\<rparr>"

subsection \<open>The wlroots queries the toolkit consumes\<close>

datatype wlr_scene_node_type = WLR_SCENE_NODE_TREE | WLR_SCENE_NODE_RECT | WLR_SCENE_NODE_BUFFER

text \<open>
  The read-only wlroots functions that \<^verbatim>\<open>surface.c\<close> calls are the fields
  of a record, so that every theorem holds for whatever wlroots answers.
  \<^item> \<open>wlr_surface_get_root_surface\<close> returns a pointer, which may be
    \<^verbatim>\<open>NULL\<close>;
  \<^item> \<open>wlr_surface_get_extends\<close> fills a box;
  \<^item> \<open>wlr_surface_current\<close> is \<^verbatim>\<open>(current.width, current.height)\<close>
    of a surface;
  \<^item> \<open>wlr_scene_node_coords\<close> returns its boolean with the two coordinates it wrote;
  \<^item> \<open>wlr_scene_node_at\<close> returns the node found with the node-local coordinates,
    or \<^verbatim>\<open>NULL\<close>;
  \<^item> \<open>wlr_scene_node_type_of\<close> is the field \<^verbatim>\<open>type\<close> of a node;
  \<^item> \<open>wlr_scene_surface_try_from_buffer\<close>, applied to the buffer of a buffer node,
    returns the \<^verbatim>\<open>surface\<close> of its scene surface, or \<^verbatim>\<open>NULL\<close>
    when the buffer has none;
  \<^item> \<open>double_add_int\<close> is the addition \<^verbatim>\<open>x + lx\<close> of a
    \<^verbatim>\<open>double\<close> and an \<^verbatim>\<open>int\<close>.
\<close>

record 'd wlr_host =
  wlr_surface_get_root_surface :: "wlr_surface \<Rightarrow> wlr_surface option"
  wlr_surface_get_extends :: "wlr_surface \<Rightarrow> wlr_box"
  wlr_surface_current :: "wlr_surface \<Rightarrow> c_int \<times> c_int"
  wlr_scene_node_coords :: "wlr_scene_node \<Rightarrow> bool \<times> c_int \<times> c_int"
  wlr_scene_node_at :: "wlr_scene_node \<Rightarrow> 'd \<Rightarrow> 'd \<Rightarrow> (wlr_scene_node \<times> 'd \<times> 'd) option"
  wlr_scene_node_type_of :: "wlr_scene_node \<Rightarrow> wlr_scene_node_type"
  wlr_scene_surface_try_from_buffer :: "wlr_scene_node \<Rightarrow> wlr_surface option"
  double_add_int :: "'d \<Rightarrow> c_int \<Rightarrow> 'd"

subsection \<open>Elements\<close>

text \<open>
  Modelled from the spec: \<^verbatim>\<open>button.h\<close> is not among the sources. The event
  types are the two that \<^verbatim>\<open>surface.c\<close> names, and the click and the
  double-click that stand for every other type.
\<close>

datatype wlmtk_button_event_type_t =
  WLMTK_BUTTON_DOWN | WLMTK_BUTTON_UP | WLMTK_BUTTON_CLICK | WLMTK_BUTTON_DOUBLE_CLICK

record wlmtk_button_event_t =
  button :: uint32_t
  button_type :: wlmtk_button_event_type_t
  time_msec :: uint32_t

text \<open>
  A slot of a method table holds a pointer to a function, or \<^verbatim>\<open>NULL\<close>. The
  pointer is known by the translation unit that implements the method: the base element
  (\<^verbatim>\<open>element.c\<close>) or the surface (\<^verbatim>\<open>surface.c\<close>).
\<close>

datatype method_impl = Element_impl | Surface_impl

text \<open>
  \<^verbatim>\<open>struct _wlmtk_element_impl_t\<close> of \<^verbatim>\<open>element.h\<close>, which
  \<^verbatim>\<open>surface.c\<close> calls \<^verbatim>\<open>wlmtk_element_vmt_t\<close>.
\<close>

record wlmtk_element_impl_t =
  destroy :: "method_impl option"
  create_scene_node :: "method_impl option"
  get_dimensions :: "method_impl option"
  get_pointer_area :: "method_impl option"
  pointer_motion :: "method_impl option"
  pointer_button :: "method_impl option"
  pointer_leave :: "method_impl option"

type_synonym wlmtk_element_vmt_t = wlmtk_element_impl_t

text \<open>
  \<^verbatim>\<open>struct _wlmtk_element_t\<close> of \<^verbatim>\<open>element.h\<close>, with the
  \<^verbatim>\<open>env_ptr\<close> that \<^verbatim>\<open>surface.c\<close> reads. The list node
  \<^verbatim>\<open>dlnode\<close> belongs to the container's child list, which no function here
  touches. \<^verbatim>\<open>NAN\<close> in \<^verbatim>\<open>last_pointer_x\<close> and
  \<^verbatim>\<open>last_pointer_y\<close> ("no motion call yet") is \<open>None\<close>.
\<close>

record 'd wlmtk_element_t =
  elem_x :: c_int
  elem_y :: c_int
  parent_container_ptr :: "wlmtk_container option"
  impl_ptr :: "wlmtk_element_impl_t option"
  wlr_scene_node_ptr :: "wlr_scene_node option"
  visible :: bool
  wlr_scene_node_destroy_listener :: wl_listener
  last_pointer_x :: "'d option"
  last_pointer_y :: "'d option"
  last_pointer_time_msec :: uint32_t
  env_ptr :: "wlmtk_env option"

text \<open>
  \<^verbatim>\<open>wlmtk_element_pointer_button\<close> (\<^verbatim>\<open>element.h\<close>, inline). The
  program state that a method may read and write is \<open>m\<close>; \<open>call f m ev\<close> is the
  effect and the result of the function that the pointer \<open>f\<close> designates, called on
  this element with the event. The wrapper itself touches nothing.
\<close>

definition wlmtk_element_pointer_button ::
  "(method_impl \<Rightarrow> 'm \<Rightarrow> wlmtk_button_event_t \<Rightarrow> bool \<times> 'm) \<Rightarrow> 'd wlmtk_element_t \<Rightarrow> 'm
     \<Rightarrow> wlmtk_button_event_t \<Rightarrow> error + (bool \<times> 'm)" where
  "wlmtk_element_pointer_button call element m button_event =
     (case impl_ptr element of
        None \<Rightarrow> Inl NULL_dereferenced
      | Some impl \<Rightarrow>
          (case pointer_button impl of
             None \<Rightarrow> Inr (False, m)
           | Some f \<Rightarrow> Inr (call f m button_event)))"

subsection \<open>The element functions that the surface calls\<close>

text \<open>
  \<^verbatim>\<open>element.c\<close> is not among the sources, and \<^verbatim>\<open>surface.c\<close>
  calls the element through a later interface than the \<^verbatim>\<open>element.h\<close> at hand
  declares (\<^verbatim>\<open>wlmtk_element_init\<close> takes the environment, the method table
  is extended by \<^verbatim>\<open>wlmtk_element_extend\<close>). The definitions below are the
  missing part.
\<close>

definition zero_impl :: wlmtk_element_impl_t where
  "zero_impl = \<lparr>destroy = None, create_scene_node = None, get_dimensions = None,
     get_pointer_area = None, pointer_motion = None, pointer_button = None, pointer_leave = None\<rparr>"

text \<open>
  Modelled from the spec: the method table of the base element, which
  \<^verbatim>\<open>wlmtk_element_init\<close> installs. Section 3 makes
  \<^verbatim>\<open>pointer_button\<close> and \<^verbatim>\<open>pointer_leave\<close> optional; the base
  supplies \<^verbatim>\<open>pointer_motion\<close> (section 4.4: the surface "delegates to base for
  presence caching"), and a concrete element kind supplies the rest.
\<close>

definition element_vmt :: wlmtk_element_impl_t where
  "element_vmt = zero_impl\<lparr>pointer_motion := Some Element_impl\<rparr>"

text \<open>
  Modelled from the spec: \<^verbatim>\<open>wlmtk_element_init\<close> (section 4.1) "installs the
  capability table, zeroes position, clears pointer-presence, does not touch parent" and
  "fails only if preconditions on the passed table are violated". In the call of
  \<^verbatim>\<open>surface.c\<close> no table is passed, so the call succeeds;
  \<^verbatim>\<open>test_init_fini\<close> requires as much for a \<^verbatim>\<open>NULL\<close>
  environment.
\<close>

definition wlmtk_element_init :: "'d wlmtk_element_t \<Rightarrow> wlmtk_env option \<Rightarrow> bool \<times> 'd wlmtk_element_t" where
  "wlmtk_element_init element env =
     (True, element\<lparr>elem_x := 0, elem_y := 0, impl_ptr := Some element_vmt,
        last_pointer_x := None, last_pointer_y := None, last_pointer_time_msec := 0,
        env_ptr := env\<rparr>)"

text \<open>
  Modelled from the spec: \<^verbatim>\<open>wlmtk_element_fini\<close> (section 4.1) "detaches from
  parent if still attached, releases any external destroy-notification subscription,
  clears the capability table reference". A detached element has no scene node
  (section 4.2, step 4).
\<close>

definition wlmtk_element_fini ::
  "'d wlmtk_element_t \<Rightarrow> wl_subscriptions \<Rightarrow> 'd wlmtk_element_t \<times> wl_subscriptions" where
  "wlmtk_element_fini element subs =
     (element\<lparr>parent_container_ptr := None, wlr_scene_node_ptr := None, impl_ptr := None\<rparr>,
      wl_list_remove subs Wlr_scene_node_destroy_listener)"

text \<open>
  Modelled from the spec: \<^verbatim>\<open>wlmtk_element_extend\<close> is defined in
  \<^verbatim>\<open>element.c\<close>. The spec has the method table and its optional entries
  (section 3) and no word on extending it; the definition is written after
  \<^verbatim>\<open>wlmtk_surface_extend\<close> of \<^verbatim>\<open>surface.c\<close>, which does for
  the surface's table what this does for the element's: every entry of the given table
  that is not \<^verbatim>\<open>NULL\<close> replaces the element's, and the table as it was is
  returned.
\<close>

definition override :: "'a option \<Rightarrow> 'a option \<Rightarrow> 'a option" where
  "override old new = (case new of None \<Rightarrow> old | Some f \<Rightarrow> Some f)"

definition wlmtk_element_extend ::
  "'d wlmtk_element_t \<Rightarrow> wlmtk_element_vmt_t \<Rightarrow> wlmtk_element_vmt_t \<times> 'd wlmtk_element_t" where
  "wlmtk_element_extend element element_vmt_ptr =
     (let orig_vmt = (case impl_ptr element of None \<Rightarrow> zero_impl | Some t \<Rightarrow> t) in
      (orig_vmt,
       element\<lparr>impl_ptr := Some
         \<lparr>destroy = override (destroy orig_vmt) (destroy element_vmt_ptr),
          create_scene_node = override (create_scene_node orig_vmt) (create_scene_node element_vmt_ptr),
          get_dimensions = override (get_dimensions orig_vmt) (get_dimensions element_vmt_ptr),
          get_pointer_area = override (get_pointer_area orig_vmt) (get_pointer_area element_vmt_ptr),
          pointer_motion = override (pointer_motion orig_vmt) (pointer_motion element_vmt_ptr),
          pointer_button = override (pointer_button orig_vmt) (pointer_button element_vmt_ptr),
          pointer_leave = override (pointer_leave orig_vmt) (pointer_leave element_vmt_ptr)\<rparr>\<rparr>))"

text \<open>
  Modelled from the spec: the base element's \<^verbatim>\<open>pointer_motion\<close> method, the
  "presence caching" of section 4.4: it stores the position and the time of the motion.
  Its boolean result is left out: the one caller, in \<^verbatim>\<open>surface.c\<close>, discards it.
\<close>

definition element_pointer_motion :: "'d wlmtk_element_t \<Rightarrow> 'd \<Rightarrow> 'd \<Rightarrow> uint32_t \<Rightarrow> 'd wlmtk_element_t" where
  "element_pointer_motion element px py t =
     element\<lparr>last_pointer_x := Some px, last_pointer_y := Some py, last_pointer_time_msec := t\<rparr>"

subsection \<open>Surfaces (surface.c)\<close>

text \<open>
  \<^verbatim>\<open>surface.h\<close> is not among the sources: the two structures are read off
  the fields that \<^verbatim>\<open>surface.c\<close> uses. The one implementation of
  \<^verbatim>\<open>request_size\<close> in the sources is the fake surface's.
\<close>

datatype request_size_impl = Fake_surface_request_size

record wlmtk_surface_vmt_t =
  request_size :: "request_size_impl option"

record 'd wlmtk_surface_t =
  super_element :: "'d wlmtk_element_t"
  orig_super_element_vmt :: wlmtk_element_vmt_t
  vmt :: wlmtk_surface_vmt_t
  wlr_surface_ptr :: "wlr_surface option"
  surface_commit_listener :: wl_listener
  committed_width :: c_int
  committed_height :: c_int

record 'd wlmtk_fake_surface_t =
  surface :: "'d wlmtk_surface_t"
  serial :: uint32_t
  requested_width :: c_int
  requested_height :: c_int

text \<open>What \<^verbatim>\<open>memset(surface_ptr, 0, sizeof(wlmtk_surface_t))\<close> leaves.\<close>

definition zero_element :: "('d::zero) wlmtk_element_t" where
  "zero_element = \<lparr>elem_x = 0, elem_y = 0, parent_container_ptr = None, impl_ptr = None,
     wlr_scene_node_ptr = None, visible = False,
     wlr_scene_node_destroy_listener = \<lparr>notify = None\<rparr>,
     last_pointer_x = Some 0, last_pointer_y = Some 0, last_pointer_time_msec = 0,
     env_ptr = None\<rparr>"

definition zero_surface :: "('d::zero) wlmtk_surface_t" where
  "zero_surface = \<lparr>super_element = zero_element, orig_super_element_vmt = zero_impl,
     vmt = \<lparr>request_size = None\<rparr>, wlr_surface_ptr = None,
     surface_commit_listener = \<lparr>notify = None\<rparr>,
     committed_width = 0, committed_height = 0\<rparr>"

text \<open>The method table \<^verbatim>\<open>surface_element_vmt\<close>.\<close>

definition surface_element_vmt :: wlmtk_element_vmt_t where
  "surface_element_vmt = \<lparr>destroy = None, create_scene_node = None,
     get_dimensions = Some Surface_impl, get_pointer_area = Some Surface_impl,
     pointer_motion = Some Surface_impl, pointer_button = Some Surface_impl,
     pointer_leave = Some Surface_impl\<rparr>"

definition wlmtk_surface_fini ::
  "('d::zero) wlmtk_surface_t \<Rightarrow> wl_subscriptions \<Rightarrow> 'd wlmtk_surface_t \<times> wl_subscriptions" where
  "wlmtk_surface_fini surface_ptr subs =
     (let (s1, subs1) =
        (case wlr_surface_ptr surface_ptr of
           None \<Rightarrow> (surface_ptr, subs)
         | Some _ \<Rightarrow> (surface_ptr\<lparr>wlr_surface_ptr := None\<rparr>, wl_list_remove subs Surface_commit_listener));
          (element, subs2) = wlmtk_element_fini (super_element s1) subs1
      in (zero_surface, subs2))"

definition wlmtk_surface_init ::
  "wlr_surface option \<Rightarrow> wlmtk_env option \<Rightarrow> wl_subscriptions
     \<Rightarrow> bool \<times> ('d::zero) wlmtk_surface_t \<times> wl_subscriptions" where
  "wlmtk_surface_init wlr_surface env subs =
     (let s0 = zero_surface;
          (ok, element) = wlmtk_element_init (super_element s0) env
      in if \<not> ok then
           (let (s', subs') = wlmtk_surface_fini (s0\<lparr>super_element := element\<rparr>) subs
            in (False, s', subs'))
         else
           (let (orig_vmt, element') = wlmtk_element_extend element surface_element_vmt;
                s1 = s0\<lparr>super_element := element', orig_super_element_vmt := orig_vmt,
                        wlr_surface_ptr := wlr_surface\<rparr>
            in case wlr_surface of
                 None \<Rightarrow> (True, s1, subs)
               | Some w \<Rightarrow>
                   (let (subs', l) = wlmtk_util_connect_listener_signal subs
                          (Surface_events_commit w) Surface_commit_listener Handle_surface_commit
                    in (True, s1\<lparr>surface_commit_listener := l\<rparr>, subs'))))"

definition wlmtk_surface_extend ::
  "'d wlmtk_surface_t \<Rightarrow> wlmtk_surface_vmt_t \<Rightarrow> wlmtk_surface_vmt_t \<times> 'd wlmtk_surface_t" where
  "wlmtk_surface_extend surface_ptr surface_vmt_ptr =
     (let orig_vmt = vmt surface_ptr in
      (orig_vmt,
       case request_size surface_vmt_ptr of
         None \<Rightarrow> surface_ptr
       | Some f \<Rightarrow> surface_ptr\<lparr>vmt := (vmt surface_ptr)\<lparr>request_size := Some f\<rparr>\<rparr>))"

definition wlmtk_surface_element :: "'d wlmtk_surface_t \<Rightarrow> 'd wlmtk_element_t" where
  "wlmtk_surface_element surface_ptr = super_element surface_ptr"

definition wlmtk_surface_get_size ::
  "'d wlmtk_surface_t \<Rightarrow> c_int option \<Rightarrow> c_int option \<Rightarrow> c_int option \<times> c_int option" where
  "wlmtk_surface_get_size surface_ptr width_ptr height_ptr =
     (out_write width_ptr (committed_width surface_ptr),
      out_write height_ptr (committed_height surface_ptr))"

text \<open>
  The two extent methods dereference the backing surface inside
  \<^verbatim>\<open>wlr_surface_get_extends\<close>; without a backing surface that is a
  \<^verbatim>\<open>NULL\<close> dereference. The result is what the four output pointers point
  to afterwards.
\<close>

definition wlmtk_surface_element_get_dimensions ::
  "'d wlr_host \<Rightarrow> 'd wlmtk_surface_t \<Rightarrow> c_int option \<Rightarrow> c_int option \<Rightarrow> c_int option \<Rightarrow> c_int option
     \<Rightarrow> error + (c_int option \<times> c_int option \<times> c_int option \<times> c_int option)" where
  "wlmtk_surface_element_get_dimensions host surface_ptr left_ptr top_ptr right_ptr bottom_ptr =
     (case wlr_surface_ptr surface_ptr of
        None \<Rightarrow> Inl NULL_dereferenced
      | Some w \<Rightarrow>
          (let box = wlr_surface_get_extends host w in
           Inr (out_write left_ptr (box_x box),
                out_write top_ptr (box_y box),
                out_write right_ptr (box_width box),
                out_write bottom_ptr (box_height box))))"

definition wlmtk_surface_element_get_pointer_area ::
  "'d wlr_host \<Rightarrow> 'd wlmtk_surface_t \<Rightarrow> c_int option \<Rightarrow> c_int option \<Rightarrow> c_int option \<Rightarrow> c_int option
     \<Rightarrow> error + (c_int option \<times> c_int option \<times> c_int option \<times> c_int option)" where
  "wlmtk_surface_element_get_pointer_area host surface_ptr left_ptr top_ptr right_ptr bottom_ptr =
     (case wlr_surface_ptr surface_ptr of
        None \<Rightarrow> Inl NULL_dereferenced
      | Some w \<Rightarrow>
          (let box = wlr_surface_get_extends host w in
           Inr (out_write left_ptr (box_x box),
                out_write top_ptr (box_y box),
                out_write right_ptr (box_width box - box_x box),
                out_write bottom_ptr (box_height box - box_y box))))"

definition wlmtk_surface_element_pointer_leave ::
  "'d wlr_host \<Rightarrow> 'd wlmtk_surface_t \<Rightarrow> 'd wlr_seat \<Rightarrow> 'd wlr_seat" where
  "wlmtk_surface_element_pointer_leave host surface_ptr seat =
     (case focused_surface seat of
        None \<Rightarrow> seat
      | Some focused_wlr_surface \<Rightarrow>
          if wlr_surface_get_root_surface host focused_wlr_surface = wlr_surface_ptr surface_ptr
          then wlr_seat_pointer_clear_focus seat
          else seat)"

text \<open>
  \<^verbatim>\<open>_wlmtk_surface_element_pointer_motion\<close>. The call through
  \<^verbatim>\<open>orig_super_element_vmt.pointer_motion\<close> comes first: a
  \<^verbatim>\<open>NULL\<close> slot ends the process, the base element's method caches the
  position, and a slot that held the surface's own method would call this function
  again, without end.
\<close>

definition wlmtk_surface_element_pointer_motion ::
  "'d wlr_host \<Rightarrow> 'd wlmtk_surface_t \<Rightarrow> 'd wlr_seat \<Rightarrow> 'd \<Rightarrow> 'd \<Rightarrow> uint32_t
     \<Rightarrow> error + (bool \<times> 'd wlmtk_surface_t \<times> 'd wlr_seat)" where
  "wlmtk_surface_element_pointer_motion host surface_ptr seat px py t =
     (case pointer_motion (orig_super_element_vmt surface_ptr) of
        None \<Rightarrow> Inl NULL_dereferenced
      | Some Surface_impl \<Rightarrow> Inl Unbounded_recursion
      | Some Element_impl \<Rightarrow>
          (let s1 = surface_ptr\<lparr>super_element :=
                      element_pointer_motion (super_element surface_ptr) px py t\<rparr>
           in case wlr_scene_node_ptr (super_element s1) of
                None \<Rightarrow> Inr (False, s1, seat)
              | Some node \<Rightarrow>
                  (let (enabled, lx, ly) = wlr_scene_node_coords host node in
                   if \<not> enabled then Inr (False, s1, seat)
                   else
                     (case wlr_scene_node_at host node
                             (double_add_int host px lx) (double_add_int host py ly) of
                        None \<Rightarrow> Inr (False, s1, seat)
                      | Some (found, node_x, node_y) \<Rightarrow>
                          if wlr_scene_node_type_of host found \<noteq> WLR_SCENE_NODE_BUFFER
                          then Inr (False, s1, seat)
                          else
                            (case wlr_scene_surface_try_from_buffer host found of
                               None \<Rightarrow> Inr (False, s1, seat)
                             | Some sub \<Rightarrow>
                                 if wlr_surface_ptr s1 \<noteq> wlr_surface_get_root_surface host sub
                                 then Inl BS_ASSERT_failed
                                 else Inr (True, s1,
                                   wlr_seat_pointer_notify_motion
                                     (wlr_seat_pointer_notify_enter seat sub node_x node_y)
                                     t node_x node_y))))))"

definition wlmtk_surface_element_pointer_button ::
  "'d wlr_host \<Rightarrow> 'd wlmtk_surface_t \<Rightarrow> 'd wlr_seat \<Rightarrow> wlmtk_button_event_t
     \<Rightarrow> error + (bool \<times> 'd wlr_seat)" where
  "wlmtk_surface_element_pointer_button host surface_ptr seat button_event =
     (case focused_surface seat of
        None \<Rightarrow> Inr (False, seat)
      | Some focused_wlr_surface \<Rightarrow>
          if wlr_surface_ptr surface_ptr \<noteq> wlr_surface_get_root_surface host focused_wlr_surface
          then Inl BS_ASSERT_failed
          else if button_type button_event = WLMTK_BUTTON_DOWN
                  \<or> button_type button_event = WLMTK_BUTTON_UP
          then Inr (True,
                 wlr_seat_pointer_notify_button seat
                   (time_msec button_event) (button button_event)
                   (if button_type button_event = WLMTK_BUTTON_DOWN
                    then WLR_BUTTON_PRESSED else WLR_BUTTON_RELEASED))
          else Inr (False, seat))"

definition wlmtk_surface_commit_size ::
  "'d wlmtk_surface_t \<Rightarrow> uint32_t \<Rightarrow> c_int \<Rightarrow> c_int \<Rightarrow> 'd wlmtk_surface_t" where
  "wlmtk_surface_commit_size surface_ptr ser width height =
     (let ser = ser in
      surface_ptr\<lparr>committed_width := width, committed_height := height\<rparr>)"

definition handle_surface_commit :: "'d wlr_host \<Rightarrow> 'd wlmtk_surface_t \<Rightarrow> error + 'd wlmtk_surface_t" where
  "handle_surface_commit host surface_ptr =
     (case wlr_surface_ptr surface_ptr of
        None \<Rightarrow> Inl NULL_dereferenced
      | Some w \<Rightarrow>
          Inr (wlmtk_surface_commit_size surface_ptr 0
                 (fst (wlr_surface_current host w)) (snd (wlr_surface_current host w))))"

subsection \<open>The fake surface\<close>

definition wlmtk_fake_surface_request_size ::
  "'d wlmtk_fake_surface_t \<Rightarrow> c_int \<Rightarrow> c_int \<Rightarrow> uint32_t \<times> 'd wlmtk_fake_surface_t" where
  "wlmtk_fake_surface_request_size fake_surface_ptr width height =
     (serial fake_surface_ptr,
      fake_surface_ptr\<lparr>requested_width := width, requested_height := height\<rparr>)"

definition wlmtk_fake_surface_vmt :: wlmtk_surface_vmt_t where
  "wlmtk_fake_surface_vmt = \<lparr>request_size = Some Fake_surface_request_size\<rparr>"

text \<open>
  \<^verbatim>\<open>wlmtk_fake_surface_create\<close>. \<open>allocated\<close> tells whether
  \<^verbatim>\<open>logged_calloc\<close> returned memory, which is zeroed. The result of
  \<^verbatim>\<open>wlmtk_surface_init\<close> is not looked at.
\<close>

definition wlmtk_fake_surface_create ::
  "bool \<Rightarrow> wl_subscriptions \<Rightarrow> ('d::zero) wlmtk_fake_surface_t option \<times> wl_subscriptions" where
  "wlmtk_fake_surface_create allocated subs =
     (if \<not> allocated then (None, subs)
      else
        (let (ok, s, subs') = wlmtk_surface_init None None subs;
             (orig_vmt, s') = wlmtk_surface_extend s wlmtk_fake_surface_vmt
         in (Some \<lparr>surface = s', serial = 0, requested_width = 0, requested_height = 0\<rparr>,
             subs')))"

definition wlmtk_fake_surface_destroy ::
  "('d::zero) wlmtk_fake_surface_t \<Rightarrow> wl_subscriptions \<Rightarrow> wl_subscriptions" where
  "wlmtk_fake_surface_destroy fake_surface_ptr subs =
     snd (wlmtk_surface_fini (surface fake_surface_ptr) subs)"

definition wlmtk_fake_surface_commit :: "'d wlmtk_fake_surface_t \<Rightarrow> 'd wlmtk_fake_surface_t" where
  "wlmtk_fake_surface_commit fake_surface_ptr =
     fake_surface_ptr\<lparr>surface :=
       wlmtk_surface_commit_size (surface fake_surface_ptr) (serial fake_surface_ptr)
         (requested_width fake_surface_ptr) (requested_height fake_surface_ptr)\<rparr>"

text \<open>
  Modelled from the spec: \<^verbatim>\<open>wlmtk_surface_request_size\<close> is declared in
  \<^verbatim>\<open>surface.h\<close>, which is not among the sources. It is the
  \<^verbatim>\<open>request_size\<close> of section 4.4, dispatched through the surface's method
  table (section 6: "a second, narrower table is exposed by Surface-derived types"). It is
  stated on the fake surface, the one kind of surface whose \<^verbatim>\<open>request_size\<close>
  the sources hold.
\<close>

definition wlmtk_surface_request_size ::
  "'d wlmtk_fake_surface_t \<Rightarrow> c_int \<Rightarrow> c_int \<Rightarrow> error + (uint32_t \<times> 'd wlmtk_fake_surface_t)" where
  "wlmtk_surface_request_size fake_surface_ptr width height =
     (case request_size (vmt (surface fake_surface_ptr)) of
        None \<Rightarrow> Inl NULL_dereferenced
      | Some Fake_surface_request_size \<Rightarrow>
          Inr (wlmtk_fake_surface_request_size fake_surface_ptr width height))"

subsection \<open>Delivery of notifications\<close>

text \<open>
  Modelled from the spec: the handler of the element's destroy listener is in
  \<^verbatim>\<open>element.c\<close>. By section 3 the scene node handle is "invalidated via an
  external destroy-notification subscription", and by section 6 the subscription
  "fires at most once, unsubscribes itself".
\<close>

definition handle_wlr_scene_node_destroy ::
  "'d wlmtk_element_t \<Rightarrow> wl_subscriptions \<Rightarrow> 'd wlmtk_element_t \<times> wl_subscriptions" where
  "handle_wlr_scene_node_destroy element subs =
     (element\<lparr>wlr_scene_node_ptr := None\<rparr>, wl_list_remove subs Wlr_scene_node_destroy_listener)"

text \<open>
  The process as far as one surface is concerned: the surface's memory, the host's
  signal lists, and the listeners of the surface that have been notified so far.
\<close>

record 'd process =
  proc_surface :: "'d wlmtk_surface_t"
  proc_subs :: wl_subscriptions
  proc_delivered :: "wl_listener_id list"

text \<open>The listener structure that a listener of the surface occupies in its memory.\<close>

definition listener_of :: "'d wlmtk_surface_t \<Rightarrow> wl_listener_id \<Rightarrow> wl_listener option" where
  "listener_of s l =
     (case l of
        Surface_commit_listener \<Rightarrow> Some (surface_commit_listener s)
      | Wlr_scene_node_destroy_listener \<Rightarrow> Some (wlr_scene_node_destroy_listener (super_element s))
      | Foreign_listener _ \<Rightarrow> None)"

text \<open>
  \<^verbatim>\<open>listener->notify(listener, data)\<close>: the call of a listener that a signal
  holds. The handler is read from the listener's memory; a zeroed listener that is still
  linked makes the call a \<^verbatim>\<open>NULL\<close> dereference.
\<close>

definition wl_listener_notify ::
  "'d wlr_host \<Rightarrow> wl_listener_id \<Rightarrow> 'd process \<Rightarrow> error + 'd process" where
  "wl_listener_notify host l p =
     (case listener_of (proc_surface p) l of
        None \<Rightarrow> Inr p
      | Some lst \<Rightarrow>
          (case notify lst of
             None \<Rightarrow> Inl NULL_dereferenced
           | Some Handle_surface_commit \<Rightarrow>
               (case handle_surface_commit host (proc_surface p) of
                  Inl e \<Rightarrow> Inl e
                | Inr s' \<Rightarrow> Inr (p\<lparr>proc_surface := s', proc_delivered := proc_delivered p @ [l]\<rparr>))
           | Some Handle_wlr_scene_node_destroy \<Rightarrow>
               (let (element, subs') =
                      handle_wlr_scene_node_destroy (super_element (proc_surface p)) (proc_subs p)
                in Inr (p\<lparr>proc_surface := (proc_surface p)\<lparr>super_element := element\<rparr>,
                          proc_subs := subs',
                          proc_delivered := proc_delivered p @ [l]\<rparr>))))"

text \<open>
  \<^verbatim>\<open>wl_signal_emit\<close>: every listener linked into the signal is notified.
  Foreign listeners do not touch the surface.
\<close>

definition wl_signal_emit_to :: "'d wlr_host \<Rightarrow> wl_signal \<Rightarrow> wl_listener_id \<Rightarrow> 'd process \<Rightarrow> error + 'd process" where
  "wl_signal_emit_to host sig l p =
     (if proc_subs p l = Some sig then wl_listener_notify host l p else Inr p)"

definition wl_signal_emit :: "'d wlr_host \<Rightarrow> wl_signal \<Rightarrow> 'd process \<Rightarrow> error + 'd process" where
  "wl_signal_emit host sig p =
     (case wl_signal_emit_to host sig Surface_commit_listener p of
        Inl e \<Rightarrow> Inl e
      | Inr p' \<Rightarrow> wl_signal_emit_to host sig Wlr_scene_node_destroy_listener p')"

text \<open>
  What the host may do while the toolkit makes no call of its own: emit a signal, link a
  foreign listener into a signal, or unlink one.
\<close>

datatype host_event =
  Signal_emit wl_signal
  | Foreign_signal_add wl_signal nat
  | Foreign_list_remove nat

fun host_event_step :: "'d wlr_host \<Rightarrow> host_event \<Rightarrow> 'd process \<Rightarrow> error + 'd process" where
  "host_event_step host (Signal_emit sig) p = wl_signal_emit host sig p"
| "host_event_step host (Foreign_signal_add sig n) p =
     Inr (p\<lparr>proc_subs := wl_signal_add (proc_subs p) sig (Foreign_listener n)\<rparr>)"
| "host_event_step host (Foreign_list_remove n) p =
     Inr (p\<lparr>proc_subs := wl_list_remove (proc_subs p) (Foreign_listener n)\<rparr>)"

fun host_events_run :: "'d wlr_host \<Rightarrow> host_event list \<Rightarrow> 'd process \<Rightarrow> error + 'd process" where
  "host_events_run host [] p = Inr p"
| "host_events_run host (ev # evs) p =
     (case host_event_step host ev p of
        Inl e \<Rightarrow> Inl e
      | Inr p' \<Rightarrow> host_events_run host evs p')"

text \<open>
  The listener invariant of a live surface: its commit listener is linked into the commit
  signal of its backing surface, and into no signal when it has none.
\<close>

definition surface_listener_inv :: "'d wlmtk_surface_t \<Rightarrow> wl_subscriptions \<Rightarrow> bool" where
  "surface_listener_inv s subs =
     (case wlr_surface_ptr s of
        None \<Rightarrow> subs Surface_commit_listener = None
      | Some w \<Rightarrow> subs Surface_commit_listener = Some (Surface_events_commit w)
                   \<and> notify (surface_commit_listener s) = Some Handle_surface_commit)"

subsection \<open>The scene attachment algorithm\<close>

text \<open>
  The scene graph of the host, as far as the algorithm reads and writes it: the parent
  tree of every live node, and the next node that the host will create.
\<close>

record wlr_scene =
  scene_node_parent :: "wlr_scene_node \<Rightarrow> wlr_scene_tree option"
  scene_next_node :: wlr_scene_node

text \<open>
  Modelled from the spec: \<^verbatim>\<open>wlmtk_element_attach_to_scene_graph\<close> is declared
  in \<^verbatim>\<open>element.h\<close> and defined in \<^verbatim>\<open>element.c\<close>, which is not
  among the sources. The definition follows the steps of section 4.2.
  \<open>container_tree c\<close> is the scene tree of container \<open>c\<close>, or \<open>None\<close> when
  \<open>c\<close> is not attached to a live scene root.
  \<^enum> The element should be attached when it is visible and its parent is attached.
  \<^enum> It should be and has no node: the capability \<^verbatim>\<open>create_scene_node\<close>
     makes a node under the parent's tree; the handle is stored and its destroy
     notification subscribed to. A missing mandatory capability is a fatal error
     (section 7).
  \<^enum> It should be and has a node under another parent: the node is re-parented.
  \<^enum> It should not be and has a node: the handle is dropped and the subscription
     released.
\<close>

definition wlmtk_element_attach_to_scene_graph ::
  "(wlmtk_container \<Rightarrow> wlr_scene_tree option) \<Rightarrow> 'd wlmtk_element_t \<Rightarrow> wlr_scene \<Rightarrow> wl_subscriptions
     \<Rightarrow> error + ('d wlmtk_element_t \<times> wlr_scene \<times> wl_subscriptions)" where
  "wlmtk_element_attach_to_scene_graph container_tree element scene subs =
     (let parent_tree =
        (case parent_container_ptr element of None \<Rightarrow> None | Some c \<Rightarrow> container_tree c)
      in case (if visible element then parent_tree else None) of
           None \<Rightarrow>
             (case wlr_scene_node_ptr element of
                None \<Rightarrow> Inr (element, scene, subs)
              | Some node \<Rightarrow>
                  Inr (element\<lparr>wlr_scene_node_ptr := None\<rparr>, scene,
                       wl_list_remove subs Wlr_scene_node_destroy_listener))
         | Some tree \<Rightarrow>
             (case wlr_scene_node_ptr element of
                None \<Rightarrow>
                  (case impl_ptr element of
                     None \<Rightarrow> Inl NULL_dereferenced
                   | Some impl \<Rightarrow>
                       (case create_scene_node impl of
                          None \<Rightarrow> Inl BS_ASSERT_failed
                        | Some f \<Rightarrow>
                            (let node = scene_next_node scene;
                                 (subs', l) = wlmtk_util_connect_listener_signal subs
                                    (Scene_node_events_destroy node)
                                    Wlr_scene_node_destroy_listener Handle_wlr_scene_node_destroy
                             in Inr (element\<lparr>wlr_scene_node_ptr := Some node,
                                              wlr_scene_node_destroy_listener := l\<rparr>,
                                     scene\<lparr>scene_node_parent := (scene_node_parent scene)(node \<mapsto> tree),
                                            scene_next_node := Suc node\<rparr>,
                                     subs'))))
              | Some node \<Rightarrow>
                  if scene_node_parent scene node = Some tree
                  then Inr (element, scene, subs)
                  else Inr (element,
                            scene\<lparr>scene_node_parent := (scene_node_parent scene)(node \<mapsto> tree)\<rparr>,
                            subs)))"

subsection \<open>The drawable sub-region under the cursor\<close>

text \<open>
  The hit test that \<^verbatim>\<open>_wlmtk_surface_element_pointer_motion\<close> performs, as a
  function of its own: the surface of the scene buffer that lies under the cursor, with
  the node-local coordinates, when the element has a scene node, the node is enabled,
  a node is found at the position, that node is a buffer and the buffer shows a surface.
\<close>

definition subregion_under_cursor ::
  "'d wlr_host \<Rightarrow> 'd wlmtk_surface_t \<Rightarrow> 'd \<Rightarrow> 'd \<Rightarrow> (wlr_surface \<times> 'd \<times> 'd) option" where
  "subregion_under_cursor host s px py =
     (case wlr_scene_node_ptr (super_element s) of
        None \<Rightarrow> None
      | Some node \<Rightarrow>
          (case wlr_scene_node_coords host node of
             (enabled, lx, ly) \<Rightarrow>
               if \<not> enabled then None
               else
                 (case wlr_scene_node_at host node
                         (double_add_int host px lx) (double_add_int host py ly) of
                    None \<Rightarrow> None
                  | Some (found, node_x, node_y) \<Rightarrow>
                      if wlr_scene_node_type_of host found \<noteq> WLR_SCENE_NODE_BUFFER then None
                      else
                        (case wlr_scene_surface_try_from_buffer host found of
                           None \<Rightarrow> None
                         | Some sub \<Rightarrow> Some (sub, node_x, node_y)))))"

subsection \<open>Concrete inputs\<close>

text \<open>
  A small host on which the functions are run. Coordinates are integers. Surface 8 is a
  sub-surface of surface 7; every other surface is its own root. The extents of a surface
  start at \<open>(5, 0)\<close>, its current size is \<open>640 \<times> 480\<close>. A scene node lies at
  \<open>(10, 20)\<close> of the layout; below and right of that point the node found is the
  next one, and node 2 is a buffer that shows surface 8.
\<close>

definition example_host :: "int wlr_host" where
  "example_host =
     \<lparr>wlr_surface_get_root_surface = (\<lambda>w. Some (if w = 8 then 7 else w)),
      wlr_surface_get_extends = (\<lambda>w. \<lparr>box_x = 5, box_y = 0, box_width = 640, box_height = 480\<rparr>),
      wlr_surface_current = (\<lambda>w. (640, 480)),
      wlr_scene_node_coords = (\<lambda>n. (True, 10, 20)),
      wlr_scene_node_at =
        (\<lambda>n px py. if 10 \<le> px \<and> 20 \<le> py then Some (Suc n, px - 10, py - 20) else None),
      wlr_scene_node_type_of =
        (\<lambda>n. if n = 2 then WLR_SCENE_NODE_BUFFER else WLR_SCENE_NODE_TREE),
      wlr_scene_surface_try_from_buffer = (\<lambda>n. Some 8),
      double_add_int = (\<lambda>d i. d + sint i)\<rparr>"

text \<open>
  A surface initialised on backing surface 7, with scene node 1 attached, and the signal
  lists that its initialisation leaves.
\<close>

definition example_surface :: "int wlmtk_surface_t" where
  "example_surface =
     (let s = fst (snd (wlmtk_surface_init (Some 7) (Some 1) Map.empty))
      in s\<lparr>super_element := (super_element s)\<lparr>wlr_scene_node_ptr := Some 1, visible := True\<rparr>\<rparr>)"

definition example_subs :: wl_subscriptions where
  "example_subs = snd (snd (wlmtk_surface_init (Some 7) (Some 1) Map.empty
      :: bool \<times> int wlmtk_surface_t \<times> wl_subscriptions))"

text \<open>The fake surface of \<^verbatim>\<open>test_fake_commit\<close>, with its serial set to 42.\<close>

definition example_fake_surface :: "int wlmtk_fake_surface_t" where
  "example_fake_surface =
     \<lparr>surface = snd (wlmtk_surface_extend (fst (snd (wlmtk_surface_init None None Map.empty)))
                       wlmtk_fake_surface_vmt),
      serial = 42, requested_width = 0, requested_height = 0\<rparr>"

text \<open>A seat whose pointer focus is on sub-surface 8, and one without pointer focus.\<close>

definition example_seat :: "int wlr_seat" where
  "example_seat = \<lparr>focused_surface = Some 8, requests = []\<rparr>"

definition idle_seat :: "int wlr_seat" where
  "idle_seat = \<lparr>focused_surface = None, requests = []\<rparr>"

text \<open>An event of the left button (code 272) at time 1000.\<close>

definition example_button_event :: "wlmtk_button_event_type_t \<Rightarrow> wlmtk_button_event_t" where
  "example_button_event ty = \<lparr>button = 272, button_type = ty, time_msec = 1000\<rparr>"

text \<open>
  A visible element of container 1, whose scene tree is 100, with a method table that
  can create a scene node; the host's next node is 5.
\<close>

definition example_element :: "int wlmtk_element_t" where
  "example_element =
     zero_element\<lparr>parent_container_ptr := Some 1, visible := True,
       impl_ptr := Some (element_vmt\<lparr>create_scene_node := Some Surface_impl\<rparr>)\<rparr>"

definition example_container_tree :: "wlmtk_container \<Rightarrow> wlr_scene_tree option" where
  "example_container_tree c = (if c = 1 then Some 100 else None)"

definition example_scene :: wlr_scene where
  "example_scene = \<lparr>scene_node_parent = Map.empty, scene_next_node = 5\<rparr>"

section \<open>Properties\<close>

subsection \<open>Shared facts\<close>

lemma get_size_Some:
  "wlmtk_surface_get_size s (Some a) (Some b) = (Some (committed_width s), Some (committed_height s))"
  by (simp add: wlmtk_surface_get_size_def out_write_def)

lemma init_result:
  "wlmtk_surface_init backing env subs =
     (True,
      zero_surface\<lparr>super_element :=
          snd (wlmtk_element_extend (snd (wlmtk_element_init zero_element env)) surface_element_vmt),
        orig_super_element_vmt := element_vmt,
        wlr_surface_ptr := backing,
        surface_commit_listener :=
          (case backing of None \<Rightarrow> \<lparr>notify = None\<rparr> | Some w \<Rightarrow> \<lparr>notify = Some Handle_surface_commit\<rparr>)\<rparr>,
      case backing of
        None \<Rightarrow> subs
      | Some w \<Rightarrow> wl_signal_add subs (Surface_events_commit w) Surface_commit_listener)"
  by (cases backing)
     (simp_all add: wlmtk_surface_init_def wlmtk_element_init_def wlmtk_element_extend_def
        wlmtk_util_connect_listener_signal_def zero_surface_def zero_element_def Let_def)

lemma surface_fini_result:
  "wlmtk_surface_fini s subs =
     (zero_surface,
      wl_list_remove
        (case wlr_surface_ptr s of
           None \<Rightarrow> subs
         | Some w \<Rightarrow> wl_list_remove subs Surface_commit_listener)
        Wlr_scene_node_destroy_listener)"
  by (simp add: wlmtk_surface_fini_def wlmtk_element_fini_def split: option.splits)

lemma handle_surface_commit_Some:
  "wlr_surface_ptr s = Some wl \<Longrightarrow>
   handle_surface_commit host s =
     Inr (s\<lparr>committed_width := fst (wlr_surface_current host wl),
            committed_height := snd (wlr_surface_current host wl)\<rparr>)"
  by (simp add: handle_surface_commit_def wlmtk_surface_commit_size_def)

lemma surface_init_listener_inv:
  "subs Surface_commit_listener = None \<Longrightarrow>
   surface_listener_inv (fst (snd (wlmtk_surface_init backing env subs)))
     (snd (snd (wlmtk_surface_init backing env subs)))"
  by (cases backing) (simp_all add: init_result surface_listener_inv_def wl_signal_add_def)

text \<open>
  The operations of a live surface leave its backing surface and its commit listener as
  they are, so the listener invariant holds from initialisation to finalisation.
\<close>

lemma surface_listener_inv_commit:
  "surface_listener_inv s subs \<Longrightarrow> surface_listener_inv (wlmtk_surface_commit_size s ser w h) subs"
  by (simp add: surface_listener_inv_def wlmtk_surface_commit_size_def split: option.splits)

lemma surface_listener_inv_extend:
  "surface_listener_inv s subs \<Longrightarrow> surface_listener_inv (snd (wlmtk_surface_extend s v)) subs"
  by (simp add: surface_listener_inv_def wlmtk_surface_extend_def Let_def split: option.splits)

lemma pointer_motion_surface:
  "wlmtk_surface_element_pointer_motion host s seat px py t = Inr (hit, s', seat') \<Longrightarrow>
   s' = s\<lparr>super_element := element_pointer_motion (super_element s) px py t\<rparr>"
  by (auto simp: wlmtk_surface_element_pointer_motion_def Let_def
      split: option.splits method_impl.splits prod.splits if_splits)

lemma surface_listener_inv_pointer_motion:
  assumes "surface_listener_inv s subs"
    and "wlmtk_surface_element_pointer_motion host s seat px py t = Inr (hit, s', seat')"
  shows "surface_listener_inv s' subs"
proof -
  have "s' = s\<lparr>super_element := element_pointer_motion (super_element s) px py t\<rparr>"
    using assms(2) by (rule pointer_motion_surface)
  then show ?thesis
    using assms(1) by (simp add: surface_listener_inv_def split: option.splits)
qed

lemma surface_init_orig_vmt:
  "pointer_motion (orig_super_element_vmt (fst (snd (wlmtk_surface_init backing env subs))))
     = Some Element_impl"
  by (simp add: init_result element_vmt_def zero_impl_def)

lemma example_surface_fields:
  "wlr_surface_ptr example_surface = Some 7"
  "wlr_scene_node_ptr (super_element example_surface) = Some 1"
  "pointer_motion (orig_super_element_vmt example_surface) = Some Element_impl"
  "notify (surface_commit_listener example_surface) = Some Handle_surface_commit"
  "committed_width example_surface = 0"
  "committed_height example_surface = 0"
  by (simp_all add: example_surface_def init_result element_vmt_def zero_impl_def
      zero_surface_def Let_def)

lemma example_subs_eq:
  "example_subs = [Surface_commit_listener \<mapsto> Surface_events_commit 7]"
  by (simp add: example_subs_def init_result wl_signal_add_def)

lemma example_fake_surface_fields:
  "request_size (vmt (surface example_fake_surface)) = Some Fake_surface_request_size"
  "serial example_fake_surface = 42"
  "committed_width (surface example_fake_surface) = 0"
  "committed_height (surface example_fake_surface) = 0"
  by (simp_all add: example_fake_surface_def wlmtk_surface_extend_def wlmtk_fake_surface_vmt_def
      init_result zero_surface_def Let_def)

lemma emit_commit:
  assumes inv: "surface_listener_inv s subs" and w: "wlr_surface_ptr s = Some wl"
    and d: "subs Wlr_scene_node_destroy_listener \<noteq> Some (Surface_events_commit wl)"
  shows "wl_signal_emit host (Surface_events_commit wl)
           \<lparr>proc_surface = s, proc_subs = subs, proc_delivered = []\<rparr>
         = Inr \<lparr>proc_surface = s\<lparr>committed_width := fst (wlr_surface_current host wl),
                    committed_height := snd (wlr_surface_current host wl)\<rparr>,
                proc_subs = subs, proc_delivered = [Surface_commit_listener]\<rparr>"
  using inv w d
  by (simp add: wl_signal_emit_def wl_signal_emit_to_def wl_listener_notify_def listener_of_def
      surface_listener_inv_def handle_surface_commit_Some)

subsection \<open>Size negotiation\<close>

text \<open>
  Claim C1. \<^verbatim>\<open>wlmtk_surface_init\<close> succeeds whether or not there is a backing
  surface, and leaves the committed size at \<open>(0, 0)\<close>. On a surface whose table holds
  the fake's \<^verbatim>\<open>request_size\<close>, \<^verbatim>\<open>wlmtk_surface_request_size\<close> returns
  the serial and leaves the committed size as it was. The commit handler of a surface
  with a backing surface sets the committed size to the backing surface's current width
  and height, and it is what the emission of the backing surface's commit signal runs;
  the fake commit sets it to the requested size. In the scenario of
  \<^verbatim>\<open>test_fake_commit\<close> (serial 42, request of \<open>200 \<times> 100\<close>) the request
  returns 42, the size is still \<open>(0, 0)\<close>, and after the fake commit it is
  \<open>(200, 100)\<close>.
\<close>

theorem surface_request_commit_size:
  fixes host :: "('d::zero) wlr_host"
  shows
  "fst (wlmtk_surface_init backing env subs0 :: bool \<times> 'd wlmtk_surface_t \<times> wl_subscriptions)
   \<and> wlmtk_surface_get_size
        (fst (snd (wlmtk_surface_init backing env subs0 :: bool \<times> 'd wlmtk_surface_t \<times> wl_subscriptions)))
        (Some a) (Some b) = (Some 0, Some 0)
   \<and> (request_size (vmt (surface f)) = Some Fake_surface_request_size \<longrightarrow>
        wlmtk_surface_request_size f w h
          = Inr (serial f, (f :: 'd wlmtk_fake_surface_t)\<lparr>requested_width := w, requested_height := h\<rparr>)
        \<and> wlmtk_surface_get_size (surface (f\<lparr>requested_width := w, requested_height := h\<rparr>)) wp hp
          = wlmtk_surface_get_size (surface f) wp hp)
   \<and> (wlr_surface_ptr s = Some wl \<longrightarrow>
        (\<exists>s'. handle_surface_commit host s = Inr s'
           \<and> wlmtk_surface_get_size s' (Some a) (Some b)
               = (Some (fst (wlr_surface_current host wl)), Some (snd (wlr_surface_current host wl)))))
   \<and> (surface_listener_inv s subs \<and> wlr_surface_ptr s = Some wl
        \<and> subs Wlr_scene_node_destroy_listener \<noteq> Some (Surface_events_commit wl) \<longrightarrow>
        (\<exists>p. wl_signal_emit host (Surface_events_commit wl)
                \<lparr>proc_surface = s, proc_subs = subs, proc_delivered = []\<rparr> = Inr p
           \<and> proc_delivered p = [Surface_commit_listener]
           \<and> wlmtk_surface_get_size (proc_surface p) (Some a) (Some b)
               = (Some (fst (wlr_surface_current host wl)), Some (snd (wlr_surface_current host wl)))))
   \<and> wlmtk_surface_get_size (surface (wlmtk_fake_surface_commit f)) (Some a) (Some b)
       = (Some (requested_width f), Some (requested_height f))
   \<and> (case fst (wlmtk_fake_surface_create True subs0 :: 'd wlmtk_fake_surface_t option \<times> wl_subscriptions) of
        None \<Rightarrow> False
      | Some f0 \<Rightarrow>
          (case wlmtk_surface_request_size (f0\<lparr>serial := 42\<rparr>) 200 100 of
             Inl e \<Rightarrow> False
           | Inr (token, f1) \<Rightarrow>
               token = 42
               \<and> wlmtk_surface_get_size (surface f1) (Some a) (Some b) = (Some 0, Some 0)
               \<and> wlmtk_surface_get_size (surface (wlmtk_fake_surface_commit f1)) (Some a) (Some b)
                   = (Some 200, Some 100)))"
proof -
  have init: "fst (wlmtk_surface_init backing env subs0 :: bool \<times> 'd wlmtk_surface_t \<times> wl_subscriptions)"
    by (simp add: init_result)
  have size0: "wlmtk_surface_get_size
        (fst (snd (wlmtk_surface_init backing env subs0 :: bool \<times> 'd wlmtk_surface_t \<times> wl_subscriptions)))
        (Some a) (Some b) = (Some 0, Some 0)"
    by (simp add: init_result get_size_Some zero_surface_def)
  have req: "request_size (vmt (surface f)) = Some Fake_surface_request_size \<longrightarrow>
        wlmtk_surface_request_size f w h
          = Inr (serial f, f\<lparr>requested_width := w, requested_height := h\<rparr>)
        \<and> wlmtk_surface_get_size (surface (f\<lparr>requested_width := w, requested_height := h\<rparr>)) wp hp
          = wlmtk_surface_get_size (surface f) wp hp"
    by (simp add: wlmtk_surface_request_size_def wlmtk_fake_surface_request_size_def)
  have com: "wlr_surface_ptr s = Some wl \<longrightarrow>
        (\<exists>s'. handle_surface_commit host s = Inr s'
           \<and> wlmtk_surface_get_size s' (Some a) (Some b)
               = (Some (fst (wlr_surface_current host wl)), Some (snd (wlr_surface_current host wl))))"
    by (simp add: handle_surface_commit_Some get_size_Some)
  have emit: "surface_listener_inv s subs \<and> wlr_surface_ptr s = Some wl
        \<and> subs Wlr_scene_node_destroy_listener \<noteq> Some (Surface_events_commit wl) \<longrightarrow>
        (\<exists>p. wl_signal_emit host (Surface_events_commit wl)
                \<lparr>proc_surface = s, proc_subs = subs, proc_delivered = []\<rparr> = Inr p
           \<and> proc_delivered p = [Surface_commit_listener]
           \<and> wlmtk_surface_get_size (proc_surface p) (Some a) (Some b)
               = (Some (fst (wlr_surface_current host wl)), Some (snd (wlr_surface_current host wl))))"
    by (simp add: emit_commit get_size_Some)
  have fake: "wlmtk_surface_get_size (surface (wlmtk_fake_surface_commit f)) (Some a) (Some b)
       = (Some (requested_width f), Some (requested_height f))"
    by (simp add: wlmtk_fake_surface_commit_def wlmtk_surface_commit_size_def get_size_Some)
  have scen: "(case fst (wlmtk_fake_surface_create True subs0 :: 'd wlmtk_fake_surface_t option \<times> wl_subscriptions) of
        None \<Rightarrow> False
      | Some f0 \<Rightarrow>
          (case wlmtk_surface_request_size (f0\<lparr>serial := 42\<rparr>) 200 100 of
             Inl e \<Rightarrow> False
           | Inr (token, f1) \<Rightarrow>
               token = 42
               \<and> wlmtk_surface_get_size (surface f1) (Some a) (Some b) = (Some 0, Some 0)
               \<and> wlmtk_surface_get_size (surface (wlmtk_fake_surface_commit f1)) (Some a) (Some b)
                   = (Some 200, Some 100)))"
    by (simp add: wlmtk_fake_surface_create_def init_result wlmtk_surface_extend_def
        wlmtk_fake_surface_vmt_def wlmtk_surface_request_size_def
        wlmtk_fake_surface_request_size_def wlmtk_fake_surface_commit_def
        wlmtk_surface_commit_size_def get_size_Some zero_surface_def Let_def)
  from init size0 req com emit fake scen show ?thesis by blast
qed

theorem surface_request_commit_size_witness:
  "wlmtk_surface_request_size example_fake_surface 200 100
     = Inr (42, example_fake_surface\<lparr>requested_width := 200, requested_height := 100\<rparr>)
   \<and> wlmtk_surface_get_size
       (surface (example_fake_surface\<lparr>requested_width := 200, requested_height := 100\<rparr>))
       (Some 1) (Some 1) = (Some 0, Some 0)
   \<and> (\<exists>s'. handle_surface_commit example_host example_surface = Inr s'
         \<and> wlmtk_surface_get_size s' (Some 1) (Some 1) = (Some 640, Some 480))
   \<and> (\<exists>p. wl_signal_emit example_host (Surface_events_commit 7)
             \<lparr>proc_surface = example_surface, proc_subs = example_subs, proc_delivered = []\<rparr> = Inr p
         \<and> proc_delivered p = [Surface_commit_listener]
         \<and> wlmtk_surface_get_size (proc_surface p) (Some 1) (Some 1) = (Some 640, Some 480))"
proof -
  have inv: "surface_listener_inv example_surface example_subs"
    by (simp add: surface_listener_inv_def example_surface_fields example_subs_eq)
  have other: "example_subs Wlr_scene_node_destroy_listener \<noteq> Some (Surface_events_commit 7)"
    by (simp add: example_subs_eq)
  have cur: "wlr_surface_current example_host 7 = (640, 480)"
    by (simp add: example_host_def)
  show ?thesis
    using surface_request_commit_size [where f = example_fake_surface and w = 200 and h = 100
        and wp = "Some 1" and hp = "Some 1" and a = 1 and b = 1
        and s = example_surface and wl = 7 and host = example_host and subs = example_subs
        and backing = None and env = None and ?subs0.0 = Map.empty]
      inv other cur
    by (simp add: example_surface_fields example_fake_surface_fields get_size_Some)
qed

subsection \<open>The commit path and the serial\<close>

text \<open>
  Claim C4. The commit path gives the same surface, and so the same committed size,
  whatever serial it is run with: \<^verbatim>\<open>_wlmtk_surface_commit_size\<close> does not read
  its serial, the fake commit passes the fake's serial to it, and the commit handler
  passes the constant 0.
\<close>

theorem commit_path_ignores_serial:
  "wlmtk_surface_commit_size s s1 w h = wlmtk_surface_commit_size s s2 w h
   \<and> wlmtk_surface_get_size (wlmtk_surface_commit_size s s1 w h) wp hp
       = wlmtk_surface_get_size (wlmtk_surface_commit_size s s2 w h) wp hp
   \<and> surface (wlmtk_fake_surface_commit (f\<lparr>serial := s1\<rparr>))
       = surface (wlmtk_fake_surface_commit (f\<lparr>serial := s2\<rparr>))
   \<and> handle_surface_commit host s
       = (case wlr_surface_ptr s of
            None \<Rightarrow> Inl NULL_dereferenced
          | Some wl \<Rightarrow>
              Inr (wlmtk_surface_commit_size s s1
                     (fst (wlr_surface_current host wl)) (snd (wlr_surface_current host wl))))"
  by (simp add: wlmtk_surface_commit_size_def wlmtk_fake_surface_commit_def
      handle_surface_commit_def split: option.splits)


subsection \<open>Optional capabilities of an element\<close>

text \<open>
  Claim C7. On an element whose method table has no \<^verbatim>\<open>pointer_button\<close> entry,
  \<^verbatim>\<open>wlmtk_element_pointer_button\<close> returns false and leaves the program state
  as it is: it is no error. When the entry is there, the result and the effect are those
  of the method it points to.
\<close>

theorem element_pointer_button_optional:
  "(impl_ptr element = Some impl \<and> pointer_button impl = None \<longrightarrow>
      wlmtk_element_pointer_button call element m ev = Inr (False, m))
   \<and> (impl_ptr element = Some impl \<and> pointer_button impl = Some f \<longrightarrow>
      wlmtk_element_pointer_button call element m ev = Inr (call f m ev))"
proof (cases "impl_ptr element")
  case None
  then show ?thesis by simp
next
  case (Some table)
  show ?thesis
  proof (cases "pointer_button table")
    case None
    with Some show ?thesis by (simp add: wlmtk_element_pointer_button_def)
  next
    case (Some g)
    with \<open>impl_ptr element = Some table\<close> show ?thesis
      by (simp add: wlmtk_element_pointer_button_def)
  qed
qed

theorem element_pointer_button_optional_witness:
  "wlmtk_element_pointer_button (\<lambda>f m ev. (True, Suc m))
     (zero_element\<lparr>impl_ptr := Some element_vmt\<rparr> :: int wlmtk_element_t)
     0 (example_button_event WLMTK_BUTTON_DOWN) = Inr (False, 0)
   \<and> wlmtk_element_pointer_button (\<lambda>f m ev. (True, Suc m))
     (zero_element\<lparr>impl_ptr := Some surface_element_vmt\<rparr> :: int wlmtk_element_t)
     0 (example_button_event WLMTK_BUTTON_DOWN) = Inr (True, Suc 0)"
  using element_pointer_button_optional
      [where element = "zero_element\<lparr>impl_ptr := Some element_vmt\<rparr> :: int wlmtk_element_t"
         and impl = element_vmt and call = "\<lambda>f m ev. (True, Suc m)" and m = 0
         and ev = "example_button_event WLMTK_BUTTON_DOWN"]
    element_pointer_button_optional
      [where element = "zero_element\<lparr>impl_ptr := Some surface_element_vmt\<rparr> :: int wlmtk_element_t"
         and impl = surface_element_vmt and f = Surface_impl
         and call = "\<lambda>f m ev. (True, Suc m)" and m = 0
         and ev = "example_button_event WLMTK_BUTTON_DOWN"]
  by (simp add: element_vmt_def zero_impl_def surface_element_vmt_def)

subsection \<open>Pointer leave\<close>

text \<open>
  Claim C6. When the seat has a focused surface and the root of that surface is the
  backing surface of this surface, \<^verbatim>\<open>pointer_leave\<close> clears the seat's pointer
  focus. When the seat has no focused surface, or one with another root, the seat is left
  as it was.
\<close>

theorem surface_pointer_leave_focus:
  "(focused_surface seat = Some focused
      \<and> wlr_surface_get_root_surface host focused = wlr_surface_ptr s \<longrightarrow>
      wlmtk_surface_element_pointer_leave host s seat = wlr_seat_pointer_clear_focus seat
      \<and> focused_surface (wlmtk_surface_element_pointer_leave host s seat) = None)
   \<and> (focused_surface seat = None
        \<or> (\<exists>other. focused_surface seat = Some other
              \<and> wlr_surface_get_root_surface host other \<noteq> wlr_surface_ptr s) \<longrightarrow>
      wlmtk_surface_element_pointer_leave host s seat = seat)"
proof (cases "focused_surface seat")
  case None
  then show ?thesis by (simp add: wlmtk_surface_element_pointer_leave_def)
next
  case (Some fw)
  show ?thesis
  proof (cases "wlr_surface_get_root_surface host fw = wlr_surface_ptr s")
    case True
    with Some show ?thesis
      by (simp add: wlmtk_surface_element_pointer_leave_def wlr_seat_pointer_clear_focus_def)
  next
    case False
    with Some show ?thesis by (auto simp: wlmtk_surface_element_pointer_leave_def)
  qed
qed

theorem surface_pointer_leave_focus_witness:
  "wlmtk_surface_element_pointer_leave example_host example_surface example_seat
     = \<lparr>focused_surface = None, requests = [Pointer_clear_focus]\<rparr>
   \<and> wlmtk_surface_element_pointer_leave example_host example_surface idle_seat = idle_seat
   \<and> wlmtk_surface_element_pointer_leave example_host
        (example_surface\<lparr>wlr_surface_ptr := Some 9\<rparr>) example_seat = example_seat"
  using surface_pointer_leave_focus
      [where seat = example_seat and focused = 8 and host = example_host and s = example_surface]
    surface_pointer_leave_focus
      [where seat = idle_seat and host = example_host and s = example_surface]
    surface_pointer_leave_focus
      [where seat = example_seat and host = example_host
         and s = "example_surface\<lparr>wlr_surface_ptr := Some 9\<rparr>"]
  by (simp add: example_seat_def idle_seat_def example_host_def example_surface_fields
      wlr_seat_pointer_clear_focus_def)

subsection \<open>Pointer button\<close>

text \<open>
  Claim C5. When the seat has no focused surface, \<^verbatim>\<open>pointer_button\<close> returns
  false and the seat receives nothing. When it has one, the assertion fails exactly when
  the root of the focused surface is not the backing surface of this surface: whenever
  the function returns with a focused surface, the root of that surface is the backing
  surface.
\<close>

theorem surface_pointer_button_focus_assertion:
  "(focused_surface seat = None \<longrightarrow>
      wlmtk_surface_element_pointer_button host s seat ev = Inr (False, seat))
   \<and> (focused_surface seat = Some focused \<longrightarrow>
        (wlmtk_surface_element_pointer_button host s seat ev = Inl BS_ASSERT_failed
           \<longleftrightarrow> wlr_surface_get_root_surface host focused \<noteq> wlr_surface_ptr s))
   \<and> (focused_surface seat = Some focused
        \<and> wlmtk_surface_element_pointer_button host s seat ev = Inr r \<longrightarrow>
        wlr_surface_get_root_surface host focused = wlr_surface_ptr s)"
proof (cases "focused_surface seat")
  case None
  then show ?thesis by (simp add: wlmtk_surface_element_pointer_button_def)
next
  case (Some fw)
  show ?thesis
  proof (cases "wlr_surface_get_root_surface host fw = wlr_surface_ptr s")
    case True
    with Some show ?thesis by (auto simp: wlmtk_surface_element_pointer_button_def)
  next
    case False
    with Some have "wlmtk_surface_element_pointer_button host s seat ev = Inl BS_ASSERT_failed"
      by (auto simp: wlmtk_surface_element_pointer_button_def)
    with Some False show ?thesis by auto
  qed
qed

theorem surface_pointer_button_focus_assertion_witness:
  "wlmtk_surface_element_pointer_button example_host example_surface idle_seat
     (example_button_event WLMTK_BUTTON_DOWN) = Inr (False, idle_seat)
   \<and> wlmtk_surface_element_pointer_button example_host example_surface example_seat
       (example_button_event WLMTK_BUTTON_DOWN) \<noteq> Inl BS_ASSERT_failed
   \<and> wlmtk_surface_element_pointer_button example_host
       (example_surface\<lparr>wlr_surface_ptr := Some 9\<rparr>) example_seat
       (example_button_event WLMTK_BUTTON_DOWN) = Inl BS_ASSERT_failed"
  using surface_pointer_button_focus_assertion
      [where seat = idle_seat and host = example_host and s = example_surface
         and ev = "example_button_event WLMTK_BUTTON_DOWN"]
    surface_pointer_button_focus_assertion
      [where seat = example_seat and focused = 8 and host = example_host and s = example_surface
         and ev = "example_button_event WLMTK_BUTTON_DOWN"]
    surface_pointer_button_focus_assertion
      [where seat = example_seat and focused = 8 and host = example_host
         and s = "example_surface\<lparr>wlr_surface_ptr := Some 9\<rparr>"
         and ev = "example_button_event WLMTK_BUTTON_DOWN"]
  by (simp add: example_seat_def idle_seat_def example_host_def example_surface_fields)

text \<open>
  Claim C9, as stated, fails: a button-down event is not forwarded and false is returned
  when the seat has no focused surface, and a click ends in the failed assertion, not in
  the result false, when the focused surface has another root.
\<close>

theorem surface_pointer_button_counterexample:
  "wlmtk_surface_element_pointer_button example_host example_surface idle_seat
     (example_button_event WLMTK_BUTTON_DOWN) = Inr (False, idle_seat)
   \<and> wlmtk_surface_element_pointer_button example_host
       (example_surface\<lparr>wlr_surface_ptr := Some 9\<rparr>) example_seat
       (example_button_event WLMTK_BUTTON_CLICK) = Inl BS_ASSERT_failed"
  by (simp add: wlmtk_surface_element_pointer_button_def idle_seat_def example_seat_def
      example_button_event_def example_host_def)

text \<open>
  Claim C9, amended. When the seat's focused surface has the backing surface of this
  surface as its root, \<^verbatim>\<open>pointer_button\<close> forwards a button-down event as
  pressed and a button-up event as released and returns true, and for every other event
  type it returns false and the seat receives nothing. When the seat has no focused
  surface it returns false for every event type and the seat receives nothing. Whenever
  it returns true, the event was a button-down or button-up and the seat received that
  one button request; whenever it returns false, the seat is as it was.
\<close>

theorem surface_pointer_button_forwarding:
  "(focused_surface seat = Some focused
      \<and> wlr_surface_get_root_surface host focused = wlr_surface_ptr s \<longrightarrow>
        (button_type ev = WLMTK_BUTTON_DOWN \<longrightarrow>
           wlmtk_surface_element_pointer_button host s seat ev
             = Inr (True, wlr_seat_pointer_notify_button seat (time_msec ev) (button ev) WLR_BUTTON_PRESSED))
      \<and> (button_type ev = WLMTK_BUTTON_UP \<longrightarrow>
           wlmtk_surface_element_pointer_button host s seat ev
             = Inr (True, wlr_seat_pointer_notify_button seat (time_msec ev) (button ev) WLR_BUTTON_RELEASED))
      \<and> (button_type ev \<noteq> WLMTK_BUTTON_DOWN \<and> button_type ev \<noteq> WLMTK_BUTTON_UP \<longrightarrow>
           wlmtk_surface_element_pointer_button host s seat ev = Inr (False, seat)))
   \<and> (focused_surface seat = None \<longrightarrow>
        wlmtk_surface_element_pointer_button host s seat ev = Inr (False, seat))
   \<and> (wlmtk_surface_element_pointer_button host s seat ev = Inr (True, seat') \<longrightarrow>
        (button_type ev = WLMTK_BUTTON_DOWN \<or> button_type ev = WLMTK_BUTTON_UP)
        \<and> requests seat' = requests seat @
             [Pointer_notify_button (time_msec ev) (button ev)
                (if button_type ev = WLMTK_BUTTON_DOWN then WLR_BUTTON_PRESSED else WLR_BUTTON_RELEASED)])
   \<and> (wlmtk_surface_element_pointer_button host s seat ev = Inr (False, seat') \<longrightarrow> seat' = seat)"
  by (auto simp: wlmtk_surface_element_pointer_button_def wlr_seat_pointer_notify_button_def
      split: option.splits if_splits)

theorem surface_pointer_button_forwarding_witness:
  "wlmtk_surface_element_pointer_button example_host example_surface example_seat
     (example_button_event WLMTK_BUTTON_DOWN)
     = Inr (True, \<lparr>focused_surface = Some 8,
                   requests = [Pointer_notify_button 1000 272 WLR_BUTTON_PRESSED]\<rparr>)
   \<and> wlmtk_surface_element_pointer_button example_host example_surface example_seat
     (example_button_event WLMTK_BUTTON_UP)
     = Inr (True, \<lparr>focused_surface = Some 8,
                   requests = [Pointer_notify_button 1000 272 WLR_BUTTON_RELEASED]\<rparr>)
   \<and> wlmtk_surface_element_pointer_button example_host example_surface example_seat
     (example_button_event WLMTK_BUTTON_DOUBLE_CLICK) = Inr (False, example_seat)
   \<and> wlmtk_surface_element_pointer_button example_host example_surface idle_seat
     (example_button_event WLMTK_BUTTON_UP) = Inr (False, idle_seat)"
  using surface_pointer_button_forwarding
      [where seat = example_seat and focused = 8 and host = example_host and s = example_surface
         and ev = "example_button_event WLMTK_BUTTON_DOWN"]
    surface_pointer_button_forwarding
      [where seat = example_seat and focused = 8 and host = example_host and s = example_surface
         and ev = "example_button_event WLMTK_BUTTON_UP"]
    surface_pointer_button_forwarding
      [where seat = example_seat and focused = 8 and host = example_host and s = example_surface
         and ev = "example_button_event WLMTK_BUTTON_DOUBLE_CLICK"]
    surface_pointer_button_forwarding
      [where seat = idle_seat and host = example_host and s = example_surface
         and ev = "example_button_event WLMTK_BUTTON_UP"]
  by (simp add: example_seat_def idle_seat_def example_host_def example_surface_fields
      example_button_event_def wlr_seat_pointer_notify_button_def)

subsection \<open>Dimensions and pointer area\<close>

lemma word_diff_self_iff: "(a :: 'a::len word) - b = a \<longleftrightarrow> b = 0"
  by (metis diff_zero diff_diff_eq2 add_diff_cancel_left' diff_add_cancel)

text \<open>
  Claim C10. On a surface with a backing surface, \<^verbatim>\<open>get_dimensions\<close> writes the
  extents box as \<open>(x, y, width, height)\<close> and \<^verbatim>\<open>get_pointer_area\<close> writes
  \<open>(x, y, width - x, height - y)\<close>, each through the output pointers that are not
  \<^verbatim>\<open>NULL\<close>. With all four outputs asked for, the two methods agree exactly when
  the origin of the extents is \<open>(0, 0)\<close>.
\<close>

theorem surface_extents_methods:
  "wlr_surface_ptr s = Some w \<longrightarrow>
     wlmtk_surface_element_get_dimensions host s lp tp rp bp
       = Inr (out_write lp (box_x (wlr_surface_get_extends host w)),
              out_write tp (box_y (wlr_surface_get_extends host w)),
              out_write rp (box_width (wlr_surface_get_extends host w)),
              out_write bp (box_height (wlr_surface_get_extends host w)))
   \<and> wlmtk_surface_element_get_pointer_area host s lp tp rp bp
       = Inr (out_write lp (box_x (wlr_surface_get_extends host w)),
              out_write tp (box_y (wlr_surface_get_extends host w)),
              out_write rp (box_width (wlr_surface_get_extends host w) - box_x (wlr_surface_get_extends host w)),
              out_write bp (box_height (wlr_surface_get_extends host w) - box_y (wlr_surface_get_extends host w)))
   \<and> wlmtk_surface_element_get_dimensions host s (Some l) (Some t) (Some r) (Some b)
       = Inr (Some (box_x (wlr_surface_get_extends host w)),
              Some (box_y (wlr_surface_get_extends host w)),
              Some (box_width (wlr_surface_get_extends host w)),
              Some (box_height (wlr_surface_get_extends host w)))
   \<and> wlmtk_surface_element_get_pointer_area host s (Some l) (Some t) (Some r) (Some b)
       = Inr (Some (box_x (wlr_surface_get_extends host w)),
              Some (box_y (wlr_surface_get_extends host w)),
              Some (box_width (wlr_surface_get_extends host w) - box_x (wlr_surface_get_extends host w)),
              Some (box_height (wlr_surface_get_extends host w) - box_y (wlr_surface_get_extends host w)))
   \<and> (wlmtk_surface_element_get_dimensions host s (Some l) (Some t) (Some r) (Some b)
        = wlmtk_surface_element_get_pointer_area host s (Some l) (Some t) (Some r) (Some b)
      \<longleftrightarrow> box_x (wlr_surface_get_extends host w) = 0 \<and> box_y (wlr_surface_get_extends host w) = 0)"
  by (auto simp: wlmtk_surface_element_get_dimensions_def wlmtk_surface_element_get_pointer_area_def
      out_write_def Let_def word_diff_self_iff)

theorem surface_extents_methods_witness:
  "wlmtk_surface_element_get_dimensions example_host example_surface (Some 0) (Some 0) (Some 0) (Some 0)
     = Inr (Some 5, Some 0, Some 640, Some 480)
   \<and> wlmtk_surface_element_get_pointer_area example_host example_surface (Some 0) (Some 0) (Some 0) (Some 0)
     = Inr (Some 5, Some 0, Some 635, Some 480)
   \<and> wlmtk_surface_element_get_dimensions example_host example_surface (Some 0) (Some 0) (Some 0) (Some 0)
     \<noteq> wlmtk_surface_element_get_pointer_area example_host example_surface (Some 0) (Some 0) (Some 0) (Some 0)
   \<and> wlmtk_surface_element_get_dimensions example_host example_surface None None (Some 0) None
     = Inr (None, None, Some 640, None)"
  using surface_extents_methods
      [where s = example_surface and w = 7 and host = example_host
         and l = 0 and t = 0 and r = 0 and b = 0
         and lp = None and tp = None and rp = "Some 0" and bp = None]
  by (simp add: example_surface_fields example_host_def out_write_def)


subsection \<open>Pointer motion\<close>

lemma pointer_motion_cases:
  assumes "pointer_motion (orig_super_element_vmt s) = Some Element_impl"
  shows "wlmtk_surface_element_pointer_motion host s seat px py t =
     (case subregion_under_cursor host s px py of
        None \<Rightarrow>
          Inr (False, s\<lparr>super_element := element_pointer_motion (super_element s) px py t\<rparr>, seat)
      | Some (sub, node_x, node_y) \<Rightarrow>
          if wlr_surface_get_root_surface host sub = wlr_surface_ptr s
          then Inr (True, s\<lparr>super_element := element_pointer_motion (super_element s) px py t\<rparr>,
                 wlr_seat_pointer_notify_motion
                   (wlr_seat_pointer_notify_enter seat sub node_x node_y) t node_x node_y)
          else Inl BS_ASSERT_failed)"
  using assms
  by (auto simp: wlmtk_surface_element_pointer_motion_def subregion_under_cursor_def
      element_pointer_motion_def Let_def split: option.splits prod.splits)

lemma example_subregion:
  "subregion_under_cursor example_host (example_surface\<lparr>wlr_surface_ptr := backing\<rparr>) 15 25
     = Some (8, 15, 25)"
  "subregion_under_cursor example_host example_surface 15 25 = Some (8, 15, 25)"
  "subregion_under_cursor example_host example_surface (- 5) 25 = None"
  by (simp_all add: subregion_under_cursor_def example_surface_fields example_host_def)

lemma example_root:
  "wlr_surface_get_root_surface example_host 8 = Some 7"
  by (simp add: example_host_def)

text \<open>
  Claim C3, as stated, fails: a sub-surface lies under the cursor, and the function does
  not return true, when the root of that sub-surface is not the backing surface of this
  surface. Here sub-surface 8, whose root is surface 7, is found in the scene node of a
  surface backed by surface 9: the assertion fails.
\<close>

theorem surface_pointer_motion_counterexample:
  "subregion_under_cursor example_host (example_surface\<lparr>wlr_surface_ptr := Some 9\<rparr>) 15 25
     = Some (8, 15, 25)
   \<and> wlmtk_surface_element_pointer_motion example_host
       (example_surface\<lparr>wlr_surface_ptr := Some 9\<rparr>) idle_seat 15 25 1000
     = Inl BS_ASSERT_failed"
proof -
  have "pointer_motion (orig_super_element_vmt (example_surface\<lparr>wlr_surface_ptr := Some 9\<rparr>))
          = Some Element_impl"
    by (simp add: example_surface_fields)
  from pointer_motion_cases [OF this, of example_host idle_seat 15 25 1000] show ?thesis
    by (simp add: example_subregion example_root)
qed

text \<open>
  Claim C3, amended. Surface's \<^verbatim>\<open>pointer_motion\<close>, on a surface whose saved
  table holds the base element's method (as \<^verbatim>\<open>wlmtk_surface_init\<close> leaves
  it), first has the base element cache the position and the time, then looks for the
  drawable sub-region under the cursor.
  \<^item> With none (no scene node, a disabled node, no node at the position, a node that is
    not a buffer, a buffer without a surface) it returns false and the seat receives
    nothing.
  \<^item> With one whose root is the backing surface of this surface, it returns true and the
    seat receives an enter and then a motion for that sub-region, at the node-local
    coordinates.
  \<^item> With one whose root is another surface, the assertion fails.
  So it returns true exactly when a sub-region lies under the cursor and its root is the
  backing surface.
\<close>

theorem surface_pointer_motion_hit_test:
  fixes host :: "'d wlr_host"
  assumes base: "pointer_motion (orig_super_element_vmt s) = Some Element_impl"
  shows
  "(subregion_under_cursor host s px py = None \<longrightarrow>
      wlmtk_surface_element_pointer_motion host s seat px py t
        = Inr (False, s\<lparr>super_element := element_pointer_motion (super_element s) px py t\<rparr>, seat))
   \<and> (subregion_under_cursor host s px py = Some (sub, node_x, node_y)
        \<and> wlr_surface_get_root_surface host sub = wlr_surface_ptr s \<longrightarrow>
      wlmtk_surface_element_pointer_motion host s seat px py t
        = Inr (True, s\<lparr>super_element := element_pointer_motion (super_element s) px py t\<rparr>,
               wlr_seat_pointer_notify_motion
                 (wlr_seat_pointer_notify_enter seat sub node_x node_y) t node_x node_y)
      \<and> requests (wlr_seat_pointer_notify_motion
                 (wlr_seat_pointer_notify_enter seat sub node_x node_y) t node_x node_y)
          = requests seat @ [Pointer_notify_enter sub node_x node_y, Pointer_notify_motion t node_x node_y])
   \<and> (subregion_under_cursor host s px py = Some (sub, node_x, node_y)
        \<and> wlr_surface_get_root_surface host sub \<noteq> wlr_surface_ptr s \<longrightarrow>
      wlmtk_surface_element_pointer_motion host s seat px py t = Inl BS_ASSERT_failed)
   \<and> ((\<exists>s' seat'. wlmtk_surface_element_pointer_motion host s seat px py t = Inr (True, s', seat'))
        \<longleftrightarrow> (\<exists>sub' nx ny. subregion_under_cursor host s px py = Some (sub', nx, ny)
              \<and> wlr_surface_get_root_surface host sub' = wlr_surface_ptr s))
   \<and> (wlmtk_surface_element_pointer_motion host s seat px py t = Inr (hit, s', seat') \<longrightarrow>
        last_pointer_x (super_element s') = Some px
        \<and> last_pointer_y (super_element s') = Some py
        \<and> last_pointer_time_msec (super_element s') = t)
   \<and> (subregion_under_cursor host s px py = None \<longleftrightarrow>
        (case wlr_scene_node_ptr (super_element s) of
           None \<Rightarrow> True
         | Some node \<Rightarrow>
             \<not> fst (wlr_scene_node_coords host node)
             \<or> (case wlr_scene_node_at host node
                       (double_add_int host px (fst (snd (wlr_scene_node_coords host node))))
                       (double_add_int host py (snd (snd (wlr_scene_node_coords host node)))) of
                   None \<Rightarrow> True
                 | Some (found, nx, ny) \<Rightarrow>
                     wlr_scene_node_type_of host found \<noteq> WLR_SCENE_NODE_BUFFER
                     \<or> wlr_scene_surface_try_from_buffer host found = None)))"
proof -
  note pm = pointer_motion_cases [OF base, of host seat px py t]
  have miss: "subregion_under_cursor host s px py = None \<longrightarrow>
      wlmtk_surface_element_pointer_motion host s seat px py t
        = Inr (False, s\<lparr>super_element := element_pointer_motion (super_element s) px py t\<rparr>, seat)"
    by (simp add: pm)
  have hit: "subregion_under_cursor host s px py = Some (sub, node_x, node_y)
        \<and> wlr_surface_get_root_surface host sub = wlr_surface_ptr s \<longrightarrow>
      wlmtk_surface_element_pointer_motion host s seat px py t
        = Inr (True, s\<lparr>super_element := element_pointer_motion (super_element s) px py t\<rparr>,
               wlr_seat_pointer_notify_motion
                 (wlr_seat_pointer_notify_enter seat sub node_x node_y) t node_x node_y)
      \<and> requests (wlr_seat_pointer_notify_motion
                 (wlr_seat_pointer_notify_enter seat sub node_x node_y) t node_x node_y)
          = requests seat @ [Pointer_notify_enter sub node_x node_y, Pointer_notify_motion t node_x node_y]"
    by (simp add: pm wlr_seat_pointer_notify_motion_def wlr_seat_pointer_notify_enter_def)
  have abort: "subregion_under_cursor host s px py = Some (sub, node_x, node_y)
        \<and> wlr_surface_get_root_surface host sub \<noteq> wlr_surface_ptr s \<longrightarrow>
      wlmtk_surface_element_pointer_motion host s seat px py t = Inl BS_ASSERT_failed"
    by (simp add: pm)
  have exactly: "(\<exists>s' seat'. wlmtk_surface_element_pointer_motion host s seat px py t = Inr (True, s', seat'))
        \<longleftrightarrow> (\<exists>sub' nx ny. subregion_under_cursor host s px py = Some (sub', nx, ny)
              \<and> wlr_surface_get_root_surface host sub' = wlr_surface_ptr s)"
    by (auto simp: pm split: option.splits if_splits)
  have cache: "wlmtk_surface_element_pointer_motion host s seat px py t = Inr (hit, s', seat') \<longrightarrow>
        last_pointer_x (super_element s') = Some px
        \<and> last_pointer_y (super_element s') = Some py
        \<and> last_pointer_time_msec (super_element s') = t"
    by (auto simp: pm element_pointer_motion_def split: option.splits if_splits)
  have none: "subregion_under_cursor host s px py = None \<longleftrightarrow>
        (case wlr_scene_node_ptr (super_element s) of
           None \<Rightarrow> True
         | Some node \<Rightarrow>
             \<not> fst (wlr_scene_node_coords host node)
             \<or> (case wlr_scene_node_at host node
                       (double_add_int host px (fst (snd (wlr_scene_node_coords host node))))
                       (double_add_int host py (snd (snd (wlr_scene_node_coords host node)))) of
                   None \<Rightarrow> True
                 | Some (found, nx, ny) \<Rightarrow>
                     wlr_scene_node_type_of host found \<noteq> WLR_SCENE_NODE_BUFFER
                     \<or> wlr_scene_surface_try_from_buffer host found = None))"
    by (auto simp: subregion_under_cursor_def split: option.splits prod.splits)
  from miss hit abort exactly cache none show ?thesis by blast
qed

theorem surface_pointer_motion_hit_test_witness:
  "wlmtk_surface_element_pointer_motion example_host example_surface idle_seat 15 25 1000
     = Inr (True,
            example_surface\<lparr>super_element :=
              element_pointer_motion (super_element example_surface) 15 25 1000\<rparr>,
            \<lparr>focused_surface = Some 8,
             requests = [Pointer_notify_enter 8 15 25, Pointer_notify_motion 1000 15 25]\<rparr>)
   \<and> wlmtk_surface_element_pointer_motion example_host example_surface idle_seat (- 5) 25 1000
     = Inr (False,
            example_surface\<lparr>super_element :=
              element_pointer_motion (super_element example_surface) (- 5) 25 1000\<rparr>,
            idle_seat)"
  using surface_pointer_motion_hit_test
      [where s = example_surface and host = example_host and seat = idle_seat
         and px = 15 and py = 25 and t = 1000 and sub = 8 and node_x = 15 and node_y = 25]
    surface_pointer_motion_hit_test
      [where s = example_surface and host = example_host and seat = idle_seat
         and px = "- 5" and py = 25 and t = 1000]
  by (simp add: example_surface_fields example_subregion example_root idle_seat_def
      wlr_seat_pointer_notify_motion_def wlr_seat_pointer_notify_enter_def)

subsection \<open>Finalisation\<close>

lemma host_events_run_unsubscribed:
  fixes host :: "'d wlr_host"
  assumes "subs Surface_commit_listener = None" "subs Wlr_scene_node_destroy_listener = None"
  shows "\<exists>subs'. host_events_run host evs \<lparr>proc_surface = s, proc_subs = subs, proc_delivered = dl\<rparr>
            = Inr \<lparr>proc_surface = s, proc_subs = subs', proc_delivered = dl\<rparr>
          \<and> subs' Surface_commit_listener = None \<and> subs' Wlr_scene_node_destroy_listener = None"
  using assms
proof (induction evs arbitrary: subs)
  case Nil
  then show ?case by simp
next
  case (Cons ev evs)
  show ?case
  proof (cases ev)
    case (Signal_emit sig)
    have "host_event_step host ev \<lparr>proc_surface = s, proc_subs = subs, proc_delivered = dl\<rparr>
          = Inr \<lparr>proc_surface = s, proc_subs = subs, proc_delivered = dl\<rparr>"
      using Cons.prems Signal_emit by (simp add: wl_signal_emit_def wl_signal_emit_to_def)
    then show ?thesis using Cons.IH [OF Cons.prems] by simp
  next
    case (Foreign_signal_add sig n)
    let ?subs = "wl_signal_add subs sig (Foreign_listener n)"
    have step: "host_event_step host ev \<lparr>proc_surface = s, proc_subs = subs, proc_delivered = dl\<rparr>
          = Inr \<lparr>proc_surface = s, proc_subs = ?subs, proc_delivered = dl\<rparr>"
      using Foreign_signal_add by simp
    have "?subs Surface_commit_listener = None" "?subs Wlr_scene_node_destroy_listener = None"
      using Cons.prems by (simp_all add: wl_signal_add_def)
    from Cons.IH [OF this] step show ?thesis by simp
  next
    case (Foreign_list_remove n)
    let ?subs = "wl_list_remove subs (Foreign_listener n)"
    have step: "host_event_step host ev \<lparr>proc_surface = s, proc_subs = subs, proc_delivered = dl\<rparr>
          = Inr \<lparr>proc_surface = s, proc_subs = ?subs, proc_delivered = dl\<rparr>"
      using Foreign_list_remove by simp
    have "?subs Surface_commit_listener = None" "?subs Wlr_scene_node_destroy_listener = None"
      using Cons.prems by (simp_all add: wl_list_remove_def)
    from Cons.IH [OF this] step show ?thesis by simp
  qed
qed

text \<open>
  Claim C8. After \<^verbatim>\<open>wlmtk_surface_fini\<close>, called on a live surface, the backing
  surface handle is cleared, neither the commit listener nor the destroy listener of the
  surface is linked into any signal, and the listeners of others are where they were. So
  whatever the host does afterwards (emit signals, link and unlink foreign listeners),
  every step returns, no notification is delivered to the surface, and its memory stays
  as finalisation left it.
\<close>

theorem surface_fini_no_dangling_subscription:
  fixes host :: "('d::zero) wlr_host" and s :: "'d wlmtk_surface_t"
  assumes inv: "surface_listener_inv s subs"
  shows
  "wlr_surface_ptr (fst (wlmtk_surface_fini s subs)) = None
   \<and> snd (wlmtk_surface_fini s subs) Surface_commit_listener = None
   \<and> snd (wlmtk_surface_fini s subs) Wlr_scene_node_destroy_listener = None
   \<and> snd (wlmtk_surface_fini s subs) (Foreign_listener n) = subs (Foreign_listener n)
   \<and> (\<exists>p. host_events_run host evs
             \<lparr>proc_surface = fst (wlmtk_surface_fini s subs),
              proc_subs = snd (wlmtk_surface_fini s subs),
              proc_delivered = []\<rparr> = Inr p
          \<and> proc_delivered p = []
          \<and> proc_surface p = fst (wlmtk_surface_fini s subs))"
proof -
  let ?s = "fst (wlmtk_surface_fini s subs)" and ?subs = "snd (wlmtk_surface_fini s subs)"
  have ptr: "wlr_surface_ptr ?s = None"
    by (simp add: surface_fini_result zero_surface_def)
  have commit: "?subs Surface_commit_listener = None"
    using inv by (simp add: surface_fini_result surface_listener_inv_def wl_list_remove_def
        split: option.splits)
  have destroy: "?subs Wlr_scene_node_destroy_listener = None"
    by (simp add: surface_fini_result wl_list_remove_def)
  have foreign: "?subs (Foreign_listener n) = subs (Foreign_listener n)"
    by (simp add: surface_fini_result wl_list_remove_def split: option.splits)
  from host_events_run_unsubscribed [OF commit destroy, of host evs ?s "[]"]
  have run: "\<exists>p. host_events_run host evs
             \<lparr>proc_surface = ?s, proc_subs = ?subs, proc_delivered = []\<rparr> = Inr p
          \<and> proc_delivered p = [] \<and> proc_surface p = ?s"
    by auto
  from ptr commit destroy foreign run show ?thesis by blast
qed

theorem surface_fini_no_dangling_subscription_witness:
  "example_subs Surface_commit_listener = Some (Surface_events_commit 7)
   \<and> wlr_surface_ptr (fst (wlmtk_surface_fini example_surface example_subs)) = None
   \<and> snd (wlmtk_surface_fini example_surface example_subs) Surface_commit_listener = None
   \<and> snd (wlmtk_surface_fini example_surface example_subs) Wlr_scene_node_destroy_listener = None
   \<and> (\<exists>p. host_events_run example_host
             [Signal_emit (Surface_events_commit 7), Foreign_signal_add (Surface_events_commit 7) 3,
              Signal_emit (Scene_node_events_destroy 1), Signal_emit (Surface_events_commit 7)]
             \<lparr>proc_surface = fst (wlmtk_surface_fini example_surface example_subs),
              proc_subs = snd (wlmtk_surface_fini example_surface example_subs),
              proc_delivered = []\<rparr> = Inr p
          \<and> proc_delivered p = []
          \<and> proc_surface p = fst (wlmtk_surface_fini example_surface example_subs))"
proof -
  have inv: "surface_listener_inv example_surface example_subs"
    by (simp add: surface_listener_inv_def example_surface_fields example_subs_eq)
  have "example_subs Surface_commit_listener = Some (Surface_events_commit 7)"
    by (simp add: example_subs_eq)
  with surface_fini_no_dangling_subscription [OF inv, where host = example_host]
  show ?thesis by blast
qed

subsection \<open>Scene attachment\<close>

text \<open>
  After the algorithm has run, the element has a scene node exactly when it is visible
  and its parent is attached, and that node lies under the parent's tree.
\<close>

lemma attach_establishes:
  assumes "wlmtk_element_attach_to_scene_graph container_tree element scene subs
             = Inr (element', scene', subs')"
  shows "(case (if visible element then
                  (case parent_container_ptr element of None \<Rightarrow> None | Some c \<Rightarrow> container_tree c)
                else None) of
            None \<Rightarrow> wlr_scene_node_ptr element' = None
          | Some tree \<Rightarrow>
              (\<exists>node. wlr_scene_node_ptr element' = Some node
                 \<and> scene_node_parent scene' node = Some tree))"
  using assms
  by (auto simp: wlmtk_element_attach_to_scene_graph_def wlmtk_util_connect_listener_signal_def
      Let_def split: option.splits if_splits)

text \<open>
  Claim C2. When \<^verbatim>\<open>wlmtk_element_attach_to_scene_graph\<close> has returned, a second
  call on the state it left, with the containers unchanged, returns the same state: the
  element (its scene node handle with it), the scene graph and the signal lists are those
  after the first call.
\<close>

theorem attach_to_scene_graph_idempotent:
  "wlmtk_element_attach_to_scene_graph container_tree element scene subs = Inr (element', scene', subs')
   \<Longrightarrow> wlmtk_element_attach_to_scene_graph container_tree element' scene' subs'
         = Inr (element', scene', subs')"
  by (auto simp: wlmtk_element_attach_to_scene_graph_def wlmtk_util_connect_listener_signal_def
      Let_def split: option.splits if_splits)

theorem attach_to_scene_graph_idempotent_witness:
  "wlmtk_element_attach_to_scene_graph example_container_tree example_element example_scene Map.empty
     = Inr (example_element\<lparr>wlr_scene_node_ptr := Some 5,
              wlr_scene_node_destroy_listener := \<lparr>notify = Some Handle_wlr_scene_node_destroy\<rparr>\<rparr>,
            \<lparr>scene_node_parent = [5 \<mapsto> 100], scene_next_node = 6\<rparr>,
            [Wlr_scene_node_destroy_listener \<mapsto> Scene_node_events_destroy 5])
   \<and> wlmtk_element_attach_to_scene_graph example_container_tree
       (example_element\<lparr>wlr_scene_node_ptr := Some 5,
          wlr_scene_node_destroy_listener := \<lparr>notify = Some Handle_wlr_scene_node_destroy\<rparr>\<rparr>)
       \<lparr>scene_node_parent = [5 \<mapsto> 100], scene_next_node = 6\<rparr>
       [Wlr_scene_node_destroy_listener \<mapsto> Scene_node_events_destroy 5]
     = Inr (example_element\<lparr>wlr_scene_node_ptr := Some 5,
              wlr_scene_node_destroy_listener := \<lparr>notify = Some Handle_wlr_scene_node_destroy\<rparr>\<rparr>,
            \<lparr>scene_node_parent = [5 \<mapsto> 100], scene_next_node = 6\<rparr>,
            [Wlr_scene_node_destroy_listener \<mapsto> Scene_node_events_destroy 5])"
proof -
  have first: "wlmtk_element_attach_to_scene_graph example_container_tree example_element
                 example_scene Map.empty
     = Inr (example_element\<lparr>wlr_scene_node_ptr := Some 5,
              wlr_scene_node_destroy_listener := \<lparr>notify = Some Handle_wlr_scene_node_destroy\<rparr>\<rparr>,
            \<lparr>scene_node_parent = [5 \<mapsto> 100], scene_next_node = 6\<rparr>,
            [Wlr_scene_node_destroy_listener \<mapsto> Scene_node_events_destroy 5])"
    by (simp add: wlmtk_element_attach_to_scene_graph_def example_container_tree_def
        example_element_def example_scene_def zero_element_def element_vmt_def zero_impl_def
        wlmtk_util_connect_listener_signal_def wl_signal_add_def Let_def)
  from first attach_to_scene_graph_idempotent [OF first] show ?thesis by simp
qed


end
